theory Spec2Isabelle
  imports Complex_Main
begin

section \<open>Numbers\<close>

text \<open>
  The source computes on JavaScript numbers, which are IEEE 754 binary64 values. A number
  is a finite value, one of the two infinities or \<open>NaN\<close>; the sign of zero is not
  modelled. Every arithmetic operation of the source returns the exact result rounded
  to the nearest binary64 value, a tie going to the even significand, and an infinity
  when the rounded result reaches \<open>2 ^ 1024\<close>.
\<close>

datatype jsnum = Num real | PosInfinity | NegInfinity | NaN

text \<open>The nearest integer, a tie going to the even one.\<close>

definition rne :: "real \<Rightarrow> int" where
  "rne q = (let f = \<lfloor>q\<rfloor>; r = q - of_int f
            in if r < 1 / 2 then f else if 1 / 2 < r then f + 1
               else if even f then f else f + 1)"

text \<open>
  The exponent of the binade of a value other than 0, the least exponent -1022 for the
  subnormal values, and the distance between neighbouring binary64 values there.
\<close>

definition expo :: "real \<Rightarrow> int" where
  "expo x = max \<lfloor>log 2 \<bar>x\<bar>\<rfloor> (- 1022)"

definition ulp :: "real \<Rightarrow> real" where
  "ulp x = 2 powr (of_int (expo x) - 52)"

text \<open>
  Rounding to nearest with 53 significant bits, before the test for overflow. A decimal
  literal of the source, such as \<open>1.48\<close>, denotes \<open>fl 1.48\<close>.
\<close>

definition fl :: "real \<Rightarrow> real" where
  "fl x = (if x = 0 then 0 else sgn x * (of_int (rne (\<bar>x\<bar> / ulp x)) * ulp x))"

definition overflow_threshold :: real where
  "overflow_threshold = 2 ^ 1024"

definition rnd :: "real \<Rightarrow> jsnum" where
  "rnd x = (let y = fl x
            in if overflow_threshold \<le> y then PosInfinity
               else if y \<le> - overflow_threshold then NegInfinity
               else Num y)"

text \<open>The finite numbers: the reals that rounding leaves as they are.\<close>

definition is_double :: "real \<Rightarrow> bool" where
  "is_double x \<longleftrightarrow> rnd x = Num x"

text \<open>The operators \<open>+\<close>, \<open>-\<close>, \<open>*\<close> and \<open>/\<close> of the source.\<close>

fun js_add :: "jsnum \<Rightarrow> jsnum \<Rightarrow> jsnum" where
  "js_add NaN _ = NaN"
| "js_add _ NaN = NaN"
| "js_add (Num x) (Num y) = rnd (x + y)"
| "js_add (Num x) PosInfinity = PosInfinity"
| "js_add (Num x) NegInfinity = NegInfinity"
| "js_add PosInfinity (Num y) = PosInfinity"
| "js_add NegInfinity (Num y) = NegInfinity"
| "js_add PosInfinity PosInfinity = PosInfinity"
| "js_add PosInfinity NegInfinity = NaN"
| "js_add NegInfinity PosInfinity = NaN"
| "js_add NegInfinity NegInfinity = NegInfinity"

fun js_sub :: "jsnum \<Rightarrow> jsnum \<Rightarrow> jsnum" where
  "js_sub NaN _ = NaN"
| "js_sub _ NaN = NaN"
| "js_sub (Num x) (Num y) = rnd (x - y)"
| "js_sub (Num x) PosInfinity = NegInfinity"
| "js_sub (Num x) NegInfinity = PosInfinity"
| "js_sub PosInfinity (Num y) = PosInfinity"
| "js_sub NegInfinity (Num y) = NegInfinity"
| "js_sub PosInfinity PosInfinity = NaN"
| "js_sub PosInfinity NegInfinity = PosInfinity"
| "js_sub NegInfinity PosInfinity = NegInfinity"
| "js_sub NegInfinity NegInfinity = NaN"

fun js_mul :: "jsnum \<Rightarrow> jsnum \<Rightarrow> jsnum" where
  "js_mul NaN _ = NaN"
| "js_mul _ NaN = NaN"
| "js_mul (Num x) (Num y) = rnd (x * y)"
| "js_mul (Num x) PosInfinity =
     (if 0 < x then PosInfinity else if x < 0 then NegInfinity else NaN)"
| "js_mul (Num x) NegInfinity =
     (if 0 < x then NegInfinity else if x < 0 then PosInfinity else NaN)"
| "js_mul PosInfinity (Num y) =
     (if 0 < y then PosInfinity else if y < 0 then NegInfinity else NaN)"
| "js_mul NegInfinity (Num y) =
     (if 0 < y then NegInfinity else if y < 0 then PosInfinity else NaN)"
| "js_mul PosInfinity PosInfinity = PosInfinity"
| "js_mul PosInfinity NegInfinity = NegInfinity"
| "js_mul NegInfinity PosInfinity = NegInfinity"
| "js_mul NegInfinity NegInfinity = PosInfinity"

fun js_div :: "jsnum \<Rightarrow> jsnum \<Rightarrow> jsnum" where
  "js_div NaN _ = NaN"
| "js_div _ NaN = NaN"
| "js_div (Num x) (Num y) =
     (if y \<noteq> 0 then rnd (x / y)
      else if 0 < x then PosInfinity else if x < 0 then NegInfinity else NaN)"
| "js_div (Num x) PosInfinity = Num 0"
| "js_div (Num x) NegInfinity = Num 0"
| "js_div PosInfinity (Num y) = (if 0 \<le> y then PosInfinity else NegInfinity)"
| "js_div NegInfinity (Num y) = (if 0 \<le> y then NegInfinity else PosInfinity)"
| "js_div PosInfinity PosInfinity = NaN"
| "js_div PosInfinity NegInfinity = NaN"
| "js_div NegInfinity PosInfinity = NaN"
| "js_div NegInfinity NegInfinity = NaN"

text \<open>
  The comparisons \<open><\<close> and \<open><=\<close> of the source: false as soon as one side is \<open>NaN\<close>.
\<close>

fun js_lt :: "jsnum \<Rightarrow> jsnum \<Rightarrow> bool" where
  "js_lt NaN _ = False"
| "js_lt _ NaN = False"
| "js_lt (Num x) (Num y) = (x < y)"
| "js_lt (Num x) PosInfinity = True"
| "js_lt (Num x) NegInfinity = False"
| "js_lt PosInfinity _ = False"
| "js_lt NegInfinity (Num y) = True"
| "js_lt NegInfinity PosInfinity = True"
| "js_lt NegInfinity NegInfinity = False"

fun js_le :: "jsnum \<Rightarrow> jsnum \<Rightarrow> bool" where
  "js_le NaN _ = False"
| "js_le _ NaN = False"
| "js_le NegInfinity _ = True"
| "js_le _ PosInfinity = True"
| "js_le (Num x) (Num y) = (x \<le> y)"
| "js_le (Num x) NegInfinity = False"
| "js_le PosInfinity (Num y) = False"
| "js_le PosInfinity NegInfinity = False"

text \<open>
  \<open>Math.round\<close>: the nearest integer, a tie going up (\<open>Math.round(2.5)\<close> is 3 and
  \<open>Math.round(-2.5)\<close> is -2); the result is a binary64 value without further
  rounding, and the special values are returned as they are.
\<close>

fun Math_round :: "jsnum \<Rightarrow> jsnum" where
  "Math_round (Num x) = Num (of_int \<lfloor>x + 1 / 2\<rfloor>)"
| "Math_round v = v"

text \<open>\<open>Math.max\<close> and \<open>Math.min\<close> of two arguments: \<open>NaN\<close> if either is.\<close>

fun Math_max :: "jsnum \<Rightarrow> jsnum \<Rightarrow> jsnum" where
  "Math_max NaN _ = NaN"
| "Math_max _ NaN = NaN"
| "Math_max PosInfinity _ = PosInfinity"
| "Math_max _ PosInfinity = PosInfinity"
| "Math_max NegInfinity v = v"
| "Math_max v NegInfinity = v"
| "Math_max (Num x) (Num y) = Num (max x y)"

fun Math_min :: "jsnum \<Rightarrow> jsnum \<Rightarrow> jsnum" where
  "Math_min NaN _ = NaN"
| "Math_min _ NaN = NaN"
| "Math_min NegInfinity _ = NegInfinity"
| "Math_min _ NegInfinity = NegInfinity"
| "Math_min PosInfinity v = v"
| "Math_min v PosInfinity = v"
| "Math_min (Num x) (Num y) = Num (min x y)"

fun Math_abs :: "jsnum \<Rightarrow> jsnum" where
  "Math_abs (Num x) = Num \<bar>x\<bar>"
| "Math_abs PosInfinity = PosInfinity"
| "Math_abs NegInfinity = PosInfinity"
| "Math_abs NaN = NaN"

text \<open>\<open>Math.sqrt\<close> is correctly rounded; below zero it is \<open>NaN\<close>.\<close>

fun Math_sqrt :: "jsnum \<Rightarrow> jsnum" where
  "Math_sqrt (Num x) = (if x < 0 then NaN else rnd (sqrt x))"
| "Math_sqrt PosInfinity = PosInfinity"
| "Math_sqrt NegInfinity = NaN"
| "Math_sqrt NaN = NaN"

definition Math_PI :: real where
  "Math_PI = fl pi"

subsection \<open>The library functions of the engine\<close>

text \<open>
  ECMAScript leaves the values of \<open>Math.sin\<close>, \<open>Math.cos\<close>, \<open>Math.atan2\<close>,
  \<open>Math.log10\<close> and \<open>Math.pow\<close> on ordinary arguments to the engine
  (implementation-approximated), and fixes their values on the special ones. The engine's
  part is a parameter of the model: \<open>m_sin\<close>, \<open>m_cos\<close> on a finite argument,
  \<open>m_log10\<close> on a finite argument greater than 0, \<open>m_atan2\<close> on two arguments that
  are not \<open>NaN\<close> (its value is always finite), and \<open>m_pow2 x\<close> for
  \<open>Math.pow(x, 2)\<close> on a finite \<open>x\<close>, which may overflow.
\<close>

record Engine =
  m_sin :: "real \<Rightarrow> real"
  m_cos :: "real \<Rightarrow> real"
  m_atan2 :: "jsnum \<Rightarrow> jsnum \<Rightarrow> real"
  m_log10 :: "real \<Rightarrow> real"
  m_pow2 :: "real \<Rightarrow> jsnum"

fun Math_sin :: "Engine \<Rightarrow> jsnum \<Rightarrow> jsnum" where
  "Math_sin L (Num x) = Num (m_sin L x)"
| "Math_sin L v = NaN"

fun Math_cos :: "Engine \<Rightarrow> jsnum \<Rightarrow> jsnum" where
  "Math_cos L (Num x) = Num (m_cos L x)"
| "Math_cos L v = NaN"

definition Math_atan2 :: "Engine \<Rightarrow> jsnum \<Rightarrow> jsnum \<Rightarrow> jsnum" where
  "Math_atan2 L y x = (if y = NaN \<or> x = NaN then NaN else Num (m_atan2 L y x))"

fun Math_log10 :: "Engine \<Rightarrow> jsnum \<Rightarrow> jsnum" where
  "Math_log10 L (Num x) =
     (if 0 < x then Num (m_log10 L x) else if x = 0 then NegInfinity else NaN)"
| "Math_log10 L PosInfinity = PosInfinity"
| "Math_log10 L NegInfinity = NaN"
| "Math_log10 L NaN = NaN"

text \<open>\<open>Math.pow(x, 2)\<close>.\<close>

fun Math_pow2 :: "Engine \<Rightarrow> jsnum \<Rightarrow> jsnum" where
  "Math_pow2 L (Num x) = m_pow2 L x"
| "Math_pow2 L PosInfinity = PosInfinity"
| "Math_pow2 L NegInfinity = PosInfinity"
| "Math_pow2 L NaN = NaN"

text \<open>
  What the theorems below ask of an engine: the logarithm of a finite number greater
  than 0 is finite (a binary64 value lies between \<open>2 ^ -1074\<close> and \<open>2 ^ 1024\<close>, so
  1074 bounds it) and does not decrease when its argument grows; a square is never
  \<open>NaN\<close> and never below zero, and is the same for \<open>x\<close> and \<open>- x\<close>; the angle of
  \<open>Math.atan2 y x\<close> is not below zero when \<open>y\<close> is not.
\<close>

definition engine_ok :: "Engine \<Rightarrow> bool" where
  "engine_ok L \<longleftrightarrow>
     (\<forall>x. 0 < x \<and> is_double x \<longrightarrow> \<bar>m_log10 L x\<bar> \<le> 1074) \<and>
     (\<forall>x y. 0 < x \<and> x \<le> y \<and> is_double x \<and> is_double y \<longrightarrow>
            m_log10 L x \<le> m_log10 L y) \<and>
     (\<forall>x. js_le (Num 0) (m_pow2 L x)) \<and>
     (\<forall>x. m_pow2 L (- x) = m_pow2 L x) \<and>
     (\<forall>y x. js_le (Num 0) y \<and> x \<noteq> NaN \<longrightarrow> 0 \<le> m_atan2 L y x)"

text \<open>
  An engine whose library functions are correctly rounded: the exact value, rounded to
  nearest. \<open>atan2_exact\<close> is the angle of the point \<open>(x, y)\<close>, with the values that
  ECMAScript fixes for infinite arguments.
\<close>

fun atan2_exact :: "jsnum \<Rightarrow> jsnum \<Rightarrow> real" where
  "atan2_exact (Num y) (Num x) =
     (if 0 < x then arctan (y / x)
      else if x < 0 then (if 0 \<le> y then arctan (y / x) + pi else arctan (y / x) - pi)
      else if 0 < y then pi / 2
      else if y < 0 then - (pi / 2)
      else 0)"
| "atan2_exact (Num y) PosInfinity = 0"
| "atan2_exact (Num y) NegInfinity = (if 0 \<le> y then pi else - pi)"
| "atan2_exact PosInfinity (Num x) = pi / 2"
| "atan2_exact PosInfinity PosInfinity = pi / 4"
| "atan2_exact PosInfinity NegInfinity = 3 * pi / 4"
| "atan2_exact NegInfinity (Num x) = - (pi / 2)"
| "atan2_exact NegInfinity PosInfinity = - (pi / 4)"
| "atan2_exact NegInfinity NegInfinity = - (3 * pi / 4)"
| "atan2_exact y x = 0"

definition ref_engine :: Engine where
  "ref_engine =
     \<lparr>m_sin = (\<lambda>x. fl (sin x)),
      m_cos = (\<lambda>x. fl (cos x)),
      m_atan2 = (\<lambda>y x. fl (atan2_exact y x)),
      m_log10 = (\<lambda>x. fl (log 10 x)),
      m_pow2 = (\<lambda>x. rnd (x * x))\<rparr>"

section \<open>Regional classification (utils/seismic-calculations.ts)\<close>

datatype MacroZone = Norte | Centro | Sur | Austral

type_synonym RegionCode = string

record RegionalVelocities =
  ondaP :: real
  ondaS :: real

definition velocidadesRegionales :: "MacroZone \<Rightarrow> RegionalVelocities" where
  "velocidadesRegionales z =
     (case z of
        Norte \<Rightarrow> \<lparr>ondaP = fl 8.2, ondaS = fl 4.2\<rparr>
      | Centro \<Rightarrow> \<lparr>ondaP = 8.0, ondaS = 4.0\<rparr>
      | Sur \<Rightarrow> \<lparr>ondaP = fl 7.8, ondaS = fl 3.8\<rparr>
      | Austral \<Rightarrow> \<lparr>ondaP = fl 8.1, ondaS = fl 4.1\<rparr>)"

text \<open>
  \<open>Array.prototype.includes\<close> on an array of strings is membership in the list. A region
  code is a \<open>string\<close>; the codes of the source are ASCII.
\<close>

definition regionToMacroZone :: "RegionCode \<Rightarrow> MacroZone" where
  "regionToMacroZone regionCode =
     (if regionCode \<in> set [''15'', ''01'', ''02'', ''03''] then Norte
      else if regionCode \<in> set [''04'', ''05'', ''13'', ''06'', ''07''] then Centro
      else if regionCode \<in> set [''16'', ''08'', ''09'', ''14'', ''10''] then Sur
      else if regionCode \<in> set [''11'', ''12''] then Austral
      else Centro)"

section \<open>Intensity estimation (utils/intensity-calculations.ts)\<close>

datatype SoilType =
  Roca | Suelo_firme | Suelo_blando | Relleno | Arenoso | Arcilloso | Aluvial | Volcanico

record RegionalCoefficients =
  a :: real
  b :: real
  c :: real

definition coeficientesRegionales :: "MacroZone \<Rightarrow> RegionalCoefficients" where
  "coeficientesRegionales z =
     (case z of
        Norte \<Rightarrow> \<lparr>a = fl 1.48, b = fl 0.48, c = fl 0.0065\<rparr>
      | Centro \<Rightarrow> \<lparr>a = fl 1.52, b = fl 0.52, c = fl 0.007\<rparr>
      | Sur \<Rightarrow> \<lparr>a = fl 1.55, b = fl 0.55, c = fl 0.0075\<rparr>
      | Austral \<Rightarrow> \<lparr>a = fl 1.5, b = fl 0.5, c = fl 0.0068\<rparr>)"

definition factoresSuelo :: "SoilType \<Rightarrow> real" where
  "factoresSuelo s =
     (case s of
        Roca \<Rightarrow> 1.0
      | Suelo_firme \<Rightarrow> fl 1.2
      | Suelo_blando \<Rightarrow> fl 1.6
      | Relleno \<Rightarrow> 2.0
      | Arenoso \<Rightarrow> fl 1.8
      | Arcilloso \<Rightarrow> fl 1.7
      | Aluvial \<Rightarrow> fl 1.9
      | Volcanico \<Rightarrow> fl 1.5)"

definition factorProfundidad :: "real \<Rightarrow> real" where
  "factorProfundidad profundidadKm =
     (if profundidadKm < 30 then fl 1.2 else if profundidadKm < 70 then 1.0 else fl 0.8)"

text \<open>
  The arguments are finite numbers. The three assignments to \<open>intensidadBase\<close> of the
  source are the three bindings \<open>base0\<close>, \<open>base1\<close> and \<open>base2\<close>.
\<close>

definition estimarIntensidadLocal ::
  "Engine \<Rightarrow> real \<Rightarrow> real \<Rightarrow> real \<Rightarrow> SoilType \<Rightarrow> RegionCode \<Rightarrow> jsnum" where
  "estimarIntensidadLocal L magnitud profundidadKm distanciaKm tipoSuelo regionUsuario =
     (let macroZona = regionToMacroZone regionUsuario;
          k = coeficientesRegionales macroZona;
          base0 = js_sub (js_sub (js_mul (Num (a k)) (Num magnitud))
                                 (js_mul (Num (b k)) (Math_log10 L (Num distanciaKm))))
                         (js_mul (Num (c k)) (Num distanciaKm));
          base1 = js_mul base0 (Num (factorProfundidad profundidadKm));
          base2 = js_mul base1 (Num (factoresSuelo tipoSuelo))
      in Math_min (Num 12) (Math_max (Num 1) (Math_round base2)))"

section \<open>Recommendations (utils/intensity-calculations.ts)\<close>

text \<open>
  A string of the source is the list of its UTF-16 code units; every code unit of the
  strings below is less than 256, so each is one \<open>char\<close>, the accented letters written
  by their code.
\<close>

datatype ConstructionType = Hormigon | Albanileria | Madera | Adobe

definition recomendacionesBase :: "string list list" where
  "recomendacionesBase =
     [[''No se requieren medidas especiales'',
       ''Mant'' @ [CHR 0xE9] @ ''n la calma, es un sismo de baja intensidad''],
      [''Al'' @ [CHR 0xE9] @ ''jate de ventanas y objetos que puedan caer'',
       ''Ub'' @ [CHR 0xED] @ ''cate bajo una mesa resistente o junto a un muro estructural'',
       ''Mant'' @ [CHR 0xE9] @ ''n la calma y espera a que termine el movimiento''],
      [''Protege tu cabeza y cuello con tus brazos'',
       ''Ub'' @ [CHR 0xED] @ ''cate bajo una mesa resistente o junto a un muro estructural'',
       ''Al'' @ [CHR 0xE9] @ ''jate de ventanas, espejos y muebles altos'',
       ''No uses ascensores'',
       ''Corta suministros de gas y electricidad si es posible''],
      [''Protege tu cabeza y cuello con tus brazos'',
       ''Ub'' @ [CHR 0xED] @ ''cate bajo una mesa resistente o junto a un muro estructural'',
       ''Al'' @ [CHR 0xE9] @ ''jate de ventanas, espejos y muebles altos'',
       ''No uses ascensores'',
       ''Corta suministros de gas y electricidad si es posible'',
       ''Prep'' @ [CHR 0xE1] @ ''rate para evacuar despu'' @ [CHR 0xE9] @ ''s del sismo'',
       ''Ten cuidado con r'' @ [CHR 0xE9] @ ''plicas'',
       ''Sigue las instrucciones de las autoridades'']]"

definition recomendacionesEspecificas :: "ConstructionType \<Rightarrow> string list" where
  "recomendacionesEspecificas t =
     (case t of
        Hormigon \<Rightarrow>
          [''Las estructuras de hormig'' @ [CHR 0xF3] @
             ''n armado suelen ser resistentes a sismos moderados'',
           ''Al'' @ [CHR 0xE9] @
             ''jate de elementos no estructurales como cielos falsos o luminarias'']
      | Albanileria \<Rightarrow>
          [''Al'' @ [CHR 0xE9] @ ''jate de muros y tabiques que puedan agrietarse'',
           ''Busca protecci'' @ [CHR 0xF3] @ ''n bajo marcos de puertas reforzados'']
      | Madera \<Rightarrow>
          [''Las estructuras de madera suelen ser flexibles ante sismos'',
           ''Al'' @ [CHR 0xE9] @
             ''jate de chimeneas o elementos pesados que puedan desprenderse'']
      | Adobe \<Rightarrow>
          [''Las construcciones de adobe son muy vulnerables a sismos'',
           ''Evac'' @ [CHR 0xFA] @ ''a al exterior si es posible hacerlo de forma segura'',
           ''Si no puedes evacuar, ub'' @ [CHR 0xED] @
             ''cate en una esquina junto a muros cortos''])"

text \<open>
  The intensity is a finite number, not necessarily an integer. A call that leaves the
  construction type out is the call with \<open>Hormigon\<close>.
\<close>

definition getRecomendacionesIntensidad :: "real \<Rightarrow> ConstructionType \<Rightarrow> string list" where
  "getRecomendacionesIntensidad intensidad tipoConstruccion =
     (let recomendaciones =
            (if intensidad \<le> 3 then recomendacionesBase ! 0
             else if intensidad \<le> 5 then recomendacionesBase ! 1
             else if intensidad \<le> 7 then recomendacionesBase ! 2
             else recomendacionesBase ! 3)
      in if intensidad \<ge> 5
         then recomendaciones @ recomendacionesEspecificas tipoConstruccion
         else recomendaciones)"

section \<open>Arrival times (utils/seismic-calculations.ts)\<close>

definition toRadians :: "jsnum \<Rightarrow> jsnum" where
  "toRadians degrees = js_mul degrees (js_div (Num Math_PI) (Num 180))"

text \<open>The variable \<open>a\<close> of \<open>calcularDistanciaHaversine\<close>.\<close>

definition haversine_a :: "Engine \<Rightarrow> real \<Rightarrow> real \<Rightarrow> real \<Rightarrow> real \<Rightarrow> jsnum" where
  "haversine_a L lat1 lon1 lat2 lon2 =
     (let dLat = toRadians (js_sub (Num lat2) (Num lat1));
          dLon = toRadians (js_sub (Num lon2) (Num lon1))
      in js_add
           (js_mul (Math_sin L (js_div dLat (Num 2))) (Math_sin L (js_div dLat (Num 2))))
           (js_mul
              (js_mul
                 (js_mul (Math_cos L (toRadians (Num lat1))) (Math_cos L (toRadians (Num lat2))))
                 (Math_sin L (js_div dLon (Num 2))))
              (Math_sin L (js_div dLon (Num 2)))))"

definition calcularDistanciaHaversine ::
  "Engine \<Rightarrow> real \<Rightarrow> real \<Rightarrow> real \<Rightarrow> real \<Rightarrow> jsnum" where
  "calcularDistanciaHaversine L lat1 lon1 lat2 lon2 =
     (let R = Num 6371;
          h = haversine_a L lat1 lon1 lat2 lon2;
          ang = js_mul (Num 2) (Math_atan2 L (Math_sqrt h) (Math_sqrt (js_sub (Num 1) h)))
      in js_mul R ang)"

definition calcularFactorTopografico :: "real \<Rightarrow> real \<Rightarrow> real \<Rightarrow> real \<Rightarrow> real" where
  "calcularFactorTopografico epicentroLat epicentroLon usuarioLat usuarioLon =
     (let crossesAndes =
            js_lt (Num 0.5) (Math_abs (js_sub (Num epicentroLon) (Num usuarioLon)))
      in if crossesAndes then fl 1.15 else 1.0)"

record ArrivalTimeResult =
  tiempoOndaP :: jsnum
  tiempoOndaS :: jsnum
  diferenciaSegundos :: jsnum
  tiempoAlerta :: jsnum
  distanciaKm :: jsnum

definition calcularTiempoLlegada ::
  "Engine \<Rightarrow> real \<Rightarrow> real \<Rightarrow> real \<Rightarrow> real \<Rightarrow> real \<Rightarrow> RegionCode \<Rightarrow> ArrivalTimeResult" where
  "calcularTiempoLlegada L epicentroLat epicentroLon usuarioLat usuarioLon profundidadKm
                         regionUsuario =
     (let macroZona = regionToMacroZone regionUsuario;
          vel = velocidadesRegionales macroZona;
          dKm = calcularDistanciaHaversine L epicentroLat epicentroLon usuarioLat usuarioLon;
          factorTopografico =
            calcularFactorTopografico epicentroLat epicentroLon usuarioLat usuarioLon;
          distanciaTotal =
            Math_sqrt (js_add (Math_pow2 L (js_mul dKm (Num factorTopografico)))
                              (Math_pow2 L (Num profundidadKm)));
          tP = js_div distanciaTotal (Num (ondaP vel));
          tS = js_div distanciaTotal (Num (ondaS vel))
      in \<lparr>tiempoOndaP = tP,
          tiempoOndaS = tS,
          diferenciaSegundos = js_sub tS tP,
          tiempoAlerta = Math_max (Num 0) (js_sub tS (Num 10)),
          distanciaKm = dKm\<rparr>)"

text \<open>
  What a call does: the body of the source function has no \<open>throw\<close> and no operation that
  can throw on numbers and strings, so every call returns its record.
\<close>

datatype 'r outcome = Throws string | Returns 'r

definition calcularTiempoLlegada_outcome ::
  "Engine \<Rightarrow> real \<Rightarrow> real \<Rightarrow> real \<Rightarrow> real \<Rightarrow> real \<Rightarrow> RegionCode
     \<Rightarrow> ArrivalTimeResult outcome" where
  "calcularTiempoLlegada_outcome L epicentroLat epicentroLon usuarioLat usuarioLon
                                 profundidadKm regionUsuario =
     Returns (calcularTiempoLlegada L epicentroLat epicentroLon usuarioLat usuarioLon
                                    profundidadKm regionUsuario)"

section \<open>Tsunami warning (components/tsunami-warning.tsx)\<close>

record EarthquakeData =
  id_field :: string
  utc_time :: string
  local_time :: string
  latitude :: real
  longitude :: real
  depth :: real
  magnitude :: real
  scale :: string
  reference :: string
  region :: "string option"

record UserLocation =
  user_latitude :: real
  user_longitude :: real
  user_regionCode :: string

record CoastalPoint =
  name :: string
  lat :: real
  lon :: real

definition COASTAL_COORDINATES :: "CoastalPoint list" where
  "COASTAL_COORDINATES =
     [\<lparr>name = ''Arica'', lat = - fl 18.4746, lon = - fl 70.3136\<rparr>,
      \<lparr>name = ''Iquique'', lat = - fl 20.2307, lon = - fl 70.1356\<rparr>,
      \<lparr>name = ''Antofagasta'', lat = - fl 23.6509, lon = - fl 70.4001\<rparr>,
      \<lparr>name = ''Caldera'', lat = - fl 27.0672, lon = - fl 70.8262\<rparr>,
      \<lparr>name = ''Coquimbo'', lat = - fl 29.9649, lon = - fl 71.3394\<rparr>,
      \<lparr>name = ''Valpara'' @ [CHR 0xED] @ ''so'', lat = - fl 33.0472, lon = - fl 71.6127\<rparr>,
      \<lparr>name = ''San Antonio'', lat = - fl 33.5928, lon = - fl 71.6068\<rparr>,
      \<lparr>name = ''Constituci'' @ [CHR 0xF3] @ ''n'', lat = - fl 35.3335, lon = - fl 72.421\<rparr>,
      \<lparr>name = ''Talcahuano'', lat = - fl 36.7249, lon = - fl 73.1169\<rparr>,
      \<lparr>name = ''Lebu'', lat = - fl 37.6083, lon = - fl 73.6542\<rparr>,
      \<lparr>name = ''Valdivia'', lat = - fl 39.8142, lon = - fl 73.2459\<rparr>,
      \<lparr>name = ''Puerto Montt'', lat = - fl 41.4693, lon = - fl 72.9424\<rparr>,
      \<lparr>name = ''Ancud'', lat = - fl 41.8679, lon = - fl 73.8278\<rparr>,
      \<lparr>name = ''Chait'' @ [CHR 0xE9] @ ''n'', lat = - fl 42.9192, lon = - fl 72.7086\<rparr>,
      \<lparr>name = ''Puerto Ays'' @ [CHR 0xE9] @ ''n'', lat = - fl 45.4033, lon = - fl 72.699\<rparr>,
      \<lparr>name = ''Punta Arenas'', lat = - fl 53.1638, lon = - fl 70.9171\<rparr>]"

datatype TsunamiRisk = Risk_none | Risk_low | Risk_moderate | Risk_high | Risk_extreme

text \<open>The state of the component: its six \<open>useState\<close> cells, \<open>null\<close> being \<open>None\<close>.\<close>

record TsunamiState =
  tsunamiRisk :: TsunamiRisk
  estimatedArrivalTime :: "jsnum option"
  nearestCoastalPoint :: "string option"
  distanceToCoast :: "jsnum option"
  evacuationRoutes :: "string list"
  timeRemaining :: "jsnum option"

definition initialState :: TsunamiState where
  "initialState =
     \<lparr>tsunamiRisk = Risk_none, estimatedArrivalTime = None, nearestCoastalPoint = None,
      distanceToCoast = None, evacuationRoutes = [], timeRemaining = None\<rparr>"

definition isSubductionZone :: "EarthquakeData \<Rightarrow> bool" where
  "isSubductionZone earthquake = (longitude earthquake < -70.0)"

text \<open>The variable \<open>risk\<close> after the chain of magnitude and depth tests.\<close>

definition risk_base :: "EarthquakeData \<Rightarrow> TsunamiRisk" where
  "risk_base earthquake =
     (if magnitude earthquake \<ge> 8.0 then Risk_extreme
      else if magnitude earthquake \<ge> 7.5 then
        (if depth earthquake < 60 then Risk_high else Risk_moderate)
      else if magnitude earthquake \<ge> 7.0 then
        (if depth earthquake < 50 then Risk_moderate else Risk_low)
      else if magnitude earthquake \<ge> 6.5 \<and> depth earthquake < 30 then Risk_low
      else Risk_none)"

text \<open>The variable \<open>risk\<close> after the adjustment for the subduction zone.\<close>

definition risk :: "EarthquakeData \<Rightarrow> TsunamiRisk" where
  "risk earthquake =
     (let r = risk_base earthquake
      in if isSubductionZone earthquake \<and> r \<noteq> Risk_none then
           (if r = Risk_low then Risk_moderate
            else if r = Risk_moderate then Risk_high
            else if r = Risk_high then Risk_extreme
            else r)
         else r)"

text \<open>
  The \<open>forEach\<close> loop that looks for the nearest point: the pair is the two variables
  \<open>nearestPoint\<close> and \<open>minDistance\<close>, and \<open>distOf\<close> is the distance from the fixed
  position to a point of the table.
\<close>

fun nearest_loop :: "('p \<Rightarrow> jsnum) \<Rightarrow> 'p list \<Rightarrow> 'p \<times> jsnum \<Rightarrow> 'p \<times> jsnum" where
  "nearest_loop distOf [] (nearestPoint, minDistance) = (nearestPoint, minDistance)"
| "nearest_loop distOf (point # rest) (nearestPoint, minDistance) =
     (let distance = distOf point
      in if js_lt distance minDistance then nearest_loop distOf rest (point, distance)
         else nearest_loop distOf rest (nearestPoint, minDistance))"

definition distanceTo :: "Engine \<Rightarrow> real \<Rightarrow> real \<Rightarrow> CoastalPoint \<Rightarrow> jsnum" where
  "distanceTo L latitude0 longitude0 point =
     calcularDistanciaHaversine L latitude0 longitude0 (lat point) (lon point)"

text \<open>
  The loop with its initialisation from the first entry of the table, as the source
  writes it for the earthquake and again for the user.
\<close>

definition nearestCoastal :: "Engine \<Rightarrow> real \<Rightarrow> real \<Rightarrow> CoastalPoint \<times> jsnum" where
  "nearestCoastal L latitude0 longitude0 =
     (let nearestPoint = COASTAL_COORDINATES ! 0;
          minDistance = distanceTo L latitude0 longitude0 nearestPoint
      in nearest_loop (distanceTo L latitude0 longitude0) COASTAL_COORDINATES
           (nearestPoint, minDistance))"

definition routes :: "string list" where
  "routes =
     [''Dir'' @ [CHR 0xED] @
        ''jase inmediatamente a zonas altas, sobre 30 metros sobre el nivel del mar'',
      ''Siga las rutas de evacuaci'' @ [CHR 0xF3] @ ''n se'' @ [CHR 0xF1] @ ''alizadas'',
      ''Al'' @ [CHR 0xE9] @ ''jese de r'' @ [CHR 0xED] @
        ''os y esteros que desembocan en el mar'',
      ''No utilice veh'' @ [CHR 0xED] @
        ''culos para evacuar, salvo que las autoridades lo indiquen'']"

text \<open>
  The first effect of the component, as a function from the state before to the state
  after its \<open>set...\<close> calls. Without an earthquake it returns at once.
\<close>

definition assessTsunami ::
  "Engine \<Rightarrow> EarthquakeData option \<Rightarrow> UserLocation option \<Rightarrow> TsunamiState
     \<Rightarrow> TsunamiState" where
  "assessTsunami L earthquakeOpt userLocation s =
     (case earthquakeOpt of
        None \<Rightarrow> s
      | Some earthquake \<Rightarrow>
          (let r = risk earthquake;
               s1 = s\<lparr>tsunamiRisk := r\<rparr>
           in if r \<noteq> Risk_none then
                (let (nearestPoint, minDistance) =
                       nearestCoastal L (latitude earthquake) (longitude earthquake);
                     s2 = s1\<lparr>nearestCoastalPoint := Some (name nearestPoint)\<rparr>;
                     tsunamiSpeed = Num 800;
                     estimatedTime = js_mul (js_div minDistance tsunamiSpeed) (Num 60);
                     s3 = s2\<lparr>estimatedArrivalTime := Some estimatedTime,
                             timeRemaining := Some estimatedTime\<rparr>
                 in case userLocation of
                      None \<Rightarrow> s3
                    | Some u \<Rightarrow>
                        (let (userNearestPoint, userMinDistance) =
                               nearestCoastal L (user_latitude u) (user_longitude u);
                             s4 = s3\<lparr>distanceToCoast := Some userMinDistance\<rparr>
                         in if js_lt userMinDistance (Num 10)
                            then s4\<lparr>evacuationRoutes := routes\<rparr>
                            else s4))
              else s1))"

section \<open>The specification's reading of the tsunami estimator\<close>

text \<open>
  The base risk and the escalation by one level, written from the words of the
  specification, to be compared with \<open>risk\<close> above.
\<close>

definition spec_base_risk :: "real \<Rightarrow> real \<Rightarrow> TsunamiRisk" where
  "spec_base_risk m d =
     (if 8.0 \<le> m then Risk_extreme
      else if 7.5 \<le> m then (if d < 60 then Risk_high else Risk_moderate)
      else if 7.0 \<le> m then (if d < 50 then Risk_moderate else Risk_low)
      else if 6.5 \<le> m \<and> d < 30 then Risk_low
      else Risk_none)"

fun escalate :: "TsunamiRisk \<Rightarrow> TsunamiRisk" where
  "escalate Risk_none = Risk_none"
| "escalate Risk_low = Risk_moderate"
| "escalate Risk_moderate = Risk_high"
| "escalate Risk_high = Risk_extreme"
| "escalate Risk_extreme = Risk_extreme"

definition spec_risk :: "real \<Rightarrow> real \<Rightarrow> real \<Rightarrow> TsunamiRisk" where
  "spec_risk m d longitude0 =
     (let r = spec_base_risk m d
      in if longitude0 < -70.0 \<and> r \<noteq> Risk_none then escalate r else r)"

section \<open>Auxiliary definitions for the proofs\<close>

text \<open>A number that is not below zero: zero or more, or plus infinity.\<close>

definition nonneg :: "jsnum \<Rightarrow> bool" where
  "nonneg v \<longleftrightarrow> js_le (Num 0) v"

fun is_finite :: "jsnum \<Rightarrow> bool" where
  "is_finite (Num x) = True"
| "is_finite v = False"

fun is_rejected :: "'r outcome \<Rightarrow> bool" where
  "is_rejected (Throws msg) = True"
| "is_rejected (Returns v) = False"

text \<open>
  Two finite numbers whose difference, and one whose square, reaches the overflow
  threshold.
\<close>

definition big_latitude :: real where
  "big_latitude = 2 ^ 1023"

definition big_depth :: real where
  "big_depth = 2 ^ 512"

text \<open>Two instructions that a lower band has and the next band has not.\<close>

definition no_measures :: string where
  "no_measures = ''No se requieren medidas especiales''"

definition away_from_windows :: string where
  "away_from_windows = ''Al'' @ [CHR 0xE9] @ ''jate de ventanas y objetos que puedan caer''"

text \<open>
  Two events: magnitude 9.0 at 20 km depth west of longitude -70, and magnitude 5.0 at
  80 km depth east of it.
\<close>

definition scenario3 :: EarthquakeData where
  "scenario3 =
     \<lparr>id_field = ''s3'', utc_time = [], local_time = [], latitude = -36, longitude = -73,
      depth = 20, magnitude = 9, scale = ''Mw'', reference = [], region = None\<rparr>"

definition scenario4 :: EarthquakeData where
  "scenario4 =
     \<lparr>id_field = ''s4'', utc_time = [], local_time = [], latitude = -33, longitude = -69,
      depth = 80, magnitude = 5, scale = ''Mw'', reference = [], region = None\<rparr>"

text \<open>
  The variable \<open>intensidadBase\<close> after its first assignment, for a distance whose
  logarithm and whose product with \<open>c\<close> are finite.
\<close>

definition base0_of :: "Engine \<Rightarrow> real \<Rightarrow> real \<Rightarrow> RegionCode \<Rightarrow> jsnum" where
  "base0_of L m d r =
     (let k = coeficientesRegionales (regionToMacroZone r)
      in js_sub (js_sub (js_mul (Num (a k)) (Num m)) (Num (fl (b k * m_log10 L d))))
                (Num (fl (c k * d))))"

text \<open>The variable \<open>distanciaTotal\<close> of \<open>calcularTiempoLlegada\<close>.\<close>

definition distanciaTotal :: "Engine \<Rightarrow> real \<Rightarrow> real \<Rightarrow> real \<Rightarrow> real \<Rightarrow> real \<Rightarrow> jsnum" where
  "distanciaTotal L eLat eLon uLat uLon p =
     Math_sqrt (js_add (Math_pow2 L (js_mul (calcularDistanciaHaversine L eLat eLon uLat uLon)
                                           (Num (calcularFactorTopografico eLat eLon uLat uLon))))
                       (Math_pow2 L (Num p)))"

text \<open>
  The first entry of a table that achieves the minimum of \<open>distOf\<close> over the table, and
  the same said of an entry \<open>p\<close>: it has the least value of \<open>f\<close>, and no entry before
  it has a value as small.
\<close>

definition first_minimal :: "('p \<Rightarrow> real) \<Rightarrow> 'p list \<Rightarrow> 'p option" where
  "first_minimal distOf table = find (\<lambda>p. distOf p = Min (distOf ` set table)) table"

definition is_first_min :: "('p \<Rightarrow> real) \<Rightarrow> 'p list \<Rightarrow> 'p \<Rightarrow> bool" where
  "is_first_min f xs p \<longleftrightarrow>
     (\<exists>us vs. xs = us @ p # vs \<and> (\<forall>u\<in>set us. f p < f u) \<and> (\<forall>v\<in>set vs. f p \<le> f v))"

section \<open>Properties of the rounding\<close>

lemma rne_floor_le: "\<lfloor>q\<rfloor> \<le> rne q"
  by (simp add: rne_def Let_def)

lemma rne_le_floor: "rne q \<le> \<lfloor>q\<rfloor> + 1"
  by (simp add: rne_def Let_def)

lemma rne_of_int: "rne (of_int k) = k"
  by (simp add: rne_def Let_def)

lemma rne_mono: "q \<le> q' \<Longrightarrow> rne q \<le> rne q'"
proof -
  assume le: "q \<le> q'"
  then have f: "\<lfloor>q\<rfloor> \<le> \<lfloor>q'\<rfloor>" by (rule floor_mono)
  show ?thesis
  proof (cases "\<lfloor>q\<rfloor> = \<lfloor>q'\<rfloor>")
    case True
    then show ?thesis using le by (simp add: rne_def Let_def)
  next
    case False
    then have "\<lfloor>q\<rfloor> + 1 \<le> \<lfloor>q'\<rfloor>" using f by simp
    then show ?thesis using rne_le_floor [of q] rne_floor_le [of q'] by linarith
  qed
qed

lemma rne_ge: "of_int k \<le> q \<Longrightarrow> k \<le> rne q"
  using rne_mono [of "of_int k" q] by (simp add: rne_of_int)

lemma rne_le: "q \<le> of_int k \<Longrightarrow> rne q \<le> k"
  using rne_mono [of q "of_int k"] by (simp add: rne_of_int)

lemma ulp_pos: "0 < ulp x"
  by (simp add: ulp_def)

lemma ulp_abs: "ulp (- x) = ulp x" "expo (- x) = expo x"
  by (simp_all add: ulp_def expo_def)

lemma expo_ge: "- 1022 \<le> expo x"
  by (simp add: expo_def)

lemma expo_upper: "x \<noteq> 0 \<Longrightarrow> \<bar>x\<bar> < 2 powr (of_int (expo x) + 1)"
proof -
  assume "x \<noteq> 0"
  then have pos: "0 < \<bar>x\<bar>" by simp
  have "\<bar>x\<bar> < 2 powr (of_int \<lfloor>log 2 \<bar>x\<bar>\<rfloor> + 1)"
    using floor_log_eq_powr_iff [of "\<bar>x\<bar>" 2 "\<lfloor>log 2 \<bar>x\<bar>\<rfloor>"] pos by simp
  also have "\<dots> \<le> 2 powr (of_int (expo x) + 1)"
    by (intro powr_mono) (simp_all add: expo_def)
  finally show ?thesis .
qed

lemma expo_lower: "2 powr (- 1022) \<le> \<bar>x\<bar> \<Longrightarrow> 2 powr (of_int (expo x)) \<le> \<bar>x\<bar>"
proof -
  assume n: "2 powr (- 1022) \<le> \<bar>x\<bar>"
  have "0 < (2::real) powr (- 1022)" by simp
  then have pos: "0 < \<bar>x\<bar>" using n by linarith
  have fl: "2 powr (of_int \<lfloor>log 2 \<bar>x\<bar>\<rfloor>) \<le> \<bar>x\<bar>"
    using floor_log_eq_powr_iff [of "\<bar>x\<bar>" 2 "\<lfloor>log 2 \<bar>x\<bar>\<rfloor>"] pos by simp
  show ?thesis
  proof (cases "- 1022 \<le> \<lfloor>log 2 \<bar>x\<bar>\<rfloor>")
    case True
    then have "expo x = \<lfloor>log 2 \<bar>x\<bar>\<rfloor>" by (simp add: expo_def)
    then show ?thesis using fl by simp
  next
    case False
    then have "expo x = - 1022" by (simp add: expo_def)
    then show ?thesis using n by simp
  qed
qed

lemma expo_mono: "0 < x \<Longrightarrow> x \<le> y \<Longrightarrow> expo x \<le> expo y"
proof -
  assume "0 < x" "x \<le> y"
  then have "log 2 \<bar>x\<bar> \<le> log 2 \<bar>y\<bar>" by simp
  then have "\<lfloor>log 2 \<bar>x\<bar>\<rfloor> \<le> \<lfloor>log 2 \<bar>y\<bar>\<rfloor>" by (rule floor_mono)
  then show ?thesis by (simp add: expo_def)
qed

lemma expo_normal: "x \<noteq> 0 \<Longrightarrow> - 1022 < expo x \<Longrightarrow> 2 powr (- 1022) \<le> \<bar>x\<bar>"
proof -
  assume "x \<noteq> 0" and a: "- 1022 < expo x"
  then have e: "expo x = \<lfloor>log 2 \<bar>x\<bar>\<rfloor>" by (simp add: expo_def max_def split: if_splits)
  have pos: "0 < \<bar>x\<bar>" using \<open>x \<noteq> 0\<close> by simp
  have "2 powr (of_int \<lfloor>log 2 \<bar>x\<bar>\<rfloor>) \<le> \<bar>x\<bar>"
    using floor_log_eq_powr_iff [of "\<bar>x\<bar>" 2 "\<lfloor>log 2 \<bar>x\<bar>\<rfloor>"] pos by simp
  moreover have "(2::real) powr (- 1022) \<le> 2 powr (of_int \<lfloor>log 2 \<bar>x\<bar>\<rfloor>)"
  proof (intro powr_mono)
    have "- 1022 \<le> \<lfloor>log 2 \<bar>x\<bar>\<rfloor>" using a e by simp
    then have "real_of_int (- 1022) \<le> real_of_int \<lfloor>log 2 \<bar>x\<bar>\<rfloor>"
      by (rule of_int_le_iff [THEN iffD2])
    then show "- 1022 \<le> real_of_int \<lfloor>log 2 \<bar>x\<bar>\<rfloor>" by simp
    show "(1::real) \<le> 2" by simp
  qed
  ultimately show ?thesis by linarith
qed

lemma fl_pos_eq: "0 < x \<Longrightarrow> fl x = of_int (rne (x / ulp x)) * ulp x"
  by (simp add: fl_def)

lemma fl_minus: "fl (- x) = - fl x"
  by (simp add: fl_def ulp_abs sgn_minus)

lemma fl_0: "fl 0 = 0"
  by (simp add: fl_def)

lemma ulp_scale:
  "2 powr (of_int (expo x) + 1) = 2 ^ 53 * ulp x" "2 powr (of_int (expo x)) = 2 ^ 52 * ulp x"
proof -
  have "(2::real) powr (of_int (expo x) + 1) = 2 powr (53 + (of_int (expo x) - 52))"
    by (simp add: add.commute)
  also have "\<dots> = 2 powr 53 * ulp x" unfolding ulp_def by (rule powr_add)
  finally show "2 powr (of_int (expo x) + 1) = 2 ^ 53 * ulp x" by simp
  have "(2::real) powr (of_int (expo x)) = 2 powr (52 + (of_int (expo x) - 52))" by simp
  also have "\<dots> = 2 powr 52 * ulp x" unfolding ulp_def by (rule powr_add)
  finally show "2 powr (of_int (expo x)) = 2 ^ 52 * ulp x" by simp
qed

lemma fl_pos_upper: "0 < x \<Longrightarrow> fl x \<le> 2 powr (of_int (expo x) + 1)"
proof -
  assume pos: "0 < x"
  then have "x < 2 ^ 53 * ulp x" using expo_upper [of x] by (simp add: ulp_scale)
  then have "x / ulp x \<le> of_int (2 ^ 53)" using ulp_pos [of x] by (simp add: field_simps)
  then have "rne (x / ulp x) \<le> 2 ^ 53" by (rule rne_le)
  then have "(of_int (rne (x / ulp x)) :: real) \<le> of_int (2 ^ 53)" by (rule of_int_le_iff [THEN iffD2])
  then have "of_int (rne (x / ulp x)) * ulp x \<le> 2 ^ 53 * ulp x"
    using ulp_pos [of x] by simp
  then show ?thesis using pos by (simp add: fl_pos_eq ulp_scale)
qed

lemma fl_pos_lower: "0 < x \<Longrightarrow> 2 powr (- 1022) \<le> x \<Longrightarrow> 2 powr (of_int (expo x)) \<le> fl x"
proof -
  assume pos: "0 < x" and n: "2 powr (- 1022) \<le> x"
  then have "2 ^ 52 * ulp x \<le> x" using expo_lower [of x] by (simp add: ulp_scale)
  then have "of_int (2 ^ 52) \<le> x / ulp x" using ulp_pos [of x] by (simp add: field_simps)
  then have "2 ^ 52 \<le> rne (x / ulp x)" by (rule rne_ge)
  then have "(of_int (2 ^ 52) :: real) \<le> of_int (rne (x / ulp x))" by (rule of_int_le_iff [THEN iffD2])
  then have "2 ^ 52 * ulp x \<le> of_int (rne (x / ulp x)) * ulp x"
    using ulp_pos [of x] by simp
  then show ?thesis using pos by (simp add: fl_pos_eq ulp_scale)
qed

lemma fl_pos_nonneg: "0 < x \<Longrightarrow> 0 \<le> fl x"
proof -
  assume pos: "0 < x"
  then have "of_int 0 \<le> x / ulp x" using ulp_pos [of x] by simp
  then have "0 \<le> rne (x / ulp x)" by (rule rne_ge)
  then show ?thesis using pos ulp_pos [of x] by (simp add: fl_pos_eq)
qed

lemma fl_mono_pos: "0 < x \<Longrightarrow> x \<le> y \<Longrightarrow> fl x \<le> fl y"
proof -
  assume pos: "0 < x" and le: "x \<le> y"
  then have ypos: "0 < y" by simp
  have e: "expo x \<le> expo y" using pos le by (rule expo_mono)
  show ?thesis
  proof (cases "expo x = expo y")
    case True
    then have u: "ulp x = ulp y" by (simp add: ulp_def)
    have "x / ulp y \<le> y / ulp y" using le ulp_pos [of y] by (simp add: divide_right_mono)
    then have "rne (x / ulp y) \<le> rne (y / ulp y)" by (rule rne_mono)
    then have "(of_int (rne (x / ulp y)) :: real) \<le> of_int (rne (y / ulp y))" by simp
    then have "of_int (rne (x / ulp y)) * ulp y \<le> of_int (rne (y / ulp y)) * ulp y"
      using ulp_pos [of y] by simp
    then show ?thesis using pos ypos by (simp add: fl_pos_eq u)
  next
    case False
    then have lt: "expo x + 1 \<le> expo y" using e by simp
    then have "- 1022 < expo y" using expo_ge [of x] by linarith
    then have n: "2 powr (- 1022) \<le> y" using expo_normal [of y] ypos by simp
    have "real_of_int (expo x + 1) \<le> real_of_int (expo y)"
      using lt by (rule of_int_le_iff [THEN iffD2])
    then have lt': "real_of_int (expo x) + 1 \<le> real_of_int (expo y)" by simp
    have "fl x \<le> 2 powr (of_int (expo x) + 1)" using pos by (rule fl_pos_upper)
    also have "\<dots> \<le> 2 powr (of_int (expo y))"
      using lt' by (intro powr_mono) simp_all
    also have "\<dots> \<le> fl y" using ypos n by (rule fl_pos_lower)
    finally show ?thesis .
  qed
qed

lemma fl_nonneg: "0 \<le> x \<Longrightarrow> 0 \<le> fl x"
  by (cases "x = 0") (simp_all add: fl_0 fl_pos_nonneg)

lemma fl_nonpos: "x \<le> 0 \<Longrightarrow> fl x \<le> 0"
  using fl_nonneg [of "- x"] by (simp add: fl_minus)

lemma fl_mono: "x \<le> y \<Longrightarrow> fl x \<le> fl y"
proof -
  assume le: "x \<le> y"
  consider "0 < x" | "x \<le> 0" "0 \<le> y" | "y < 0" by linarith
  then show ?thesis
  proof cases
    case 1
    then show ?thesis using le by (rule fl_mono_pos)
  next
    case 2
    then show ?thesis using fl_nonpos [of x] fl_nonneg [of y] by linarith
  next
    case 3
    then have "fl (- y) \<le> fl (- x)" using le by (intro fl_mono_pos) simp_all
    then show ?thesis by (simp add: fl_minus)
  qed
qed


lemma fl_fixed_pos: "0 < x \<Longrightarrow> x / ulp x = of_int m \<Longrightarrow> fl x = x"
proof -
  assume pos: "0 < x" and m: "x / ulp x = of_int m"
  then have "x = of_int m * ulp x" using ulp_pos [of x] by (simp add: field_simps)
  then show ?thesis using pos m by (simp add: fl_pos_eq rne_of_int)
qed

lemma fl_dyadic_pos:
  assumes n: "0 < n" "n < 2 ^ 53" and k: "- 1074 \<le> k"
  shows "fl (of_int n * 2 powr of_int k) = of_int n * 2 powr of_int k"
proof -
  define x :: real where "x = of_int n * 2 powr of_int k"
  define u where "u = ulp x"
  have pos: "0 < x" using n by (simp add: x_def)
  have upos: "0 < u" unfolding u_def by (rule ulp_pos)
  have "(of_int n :: real) < of_int (2 ^ 53)" using n(2) by (rule of_int_less_iff [THEN iffD2])
  then have "x < 2 ^ 53 * 2 powr of_int k" by (simp add: x_def)
  also have "\<dots> = 2 powr (53 + of_int k)" by (simp add: powr_add)
  finally have up: "x < 2 powr (53 + of_int k)" .
  have e: "expo x \<le> k + 52"
  proof (cases "- 1022 < expo x")
    case True
    moreover have "x \<noteq> 0" using pos by linarith
    ultimately have "2 powr (- 1022) \<le> \<bar>x\<bar>" by (intro expo_normal)
    then have "2 powr (of_int (expo x)) \<le> \<bar>x\<bar>" by (rule expo_lower)
    then have "2 powr (of_int (expo x)) \<le> x" using pos by linarith
    then have "(2::real) powr (of_int (expo x)) < 2 powr (53 + of_int k)"
      using up by (rule le_less_trans)
    then have "real_of_int (expo x) < 53 + of_int k" by simp
    then have "real_of_int (expo x) < real_of_int (53 + k)" by simp
    then have "expo x < 53 + k" by (rule of_int_less_iff [THEN iffD1])
    then show ?thesis by simp
  next
    case False
    then have "expo x = - 1022" using expo_ge [of x] by linarith
    then show ?thesis using k by simp
  qed
  define j where "j = k + 52 - expo x"
  have j: "0 \<le> j" using e by (simp add: j_def)
  define d where "d = real_of_int (expo x) - 52"
  have "real_of_int k = real_of_int j + d" by (simp add: j_def d_def)
  then have "(2::real) powr real_of_int k = 2 powr (real_of_int j + d)" by (rule arg_cong)
  also have "\<dots> = 2 powr real_of_int j * 2 powr d" by (rule powr_add)
  also have "2 powr d = u" by (simp add: ulp_def d_def u_def)
  finally have pk: "2 powr of_int k = 2 powr of_int j * u" .
  have "x / u = of_int n * 2 powr of_int j" using upos by (simp add: x_def pk)
  also have "\<dots> = of_int (n * 2 ^ nat j)" using j by (simp add: powr_real_of_int)
  finally have "x / ulp x = of_int (n * 2 ^ nat j)" unfolding u_def .
  with pos have "fl x = x" by (rule fl_fixed_pos)
  then show ?thesis unfolding x_def .
qed

lemma fl_dyadic:
  assumes n: "\<bar>n\<bar> < 2 ^ 53" and k: "- 1074 \<le> k"
  shows "fl (of_int n * 2 powr of_int k) = of_int n * 2 powr of_int k"
proof -
  consider "n = 0" | "0 < n" | "n < 0" by linarith
  then show ?thesis
  proof cases
    case 1
    then show ?thesis by (simp add: fl_0)
  next
    case 2
    then show ?thesis using n k by (intro fl_dyadic_pos) simp_all
  next
    case 3
    then have "fl (of_int (- n) * 2 powr of_int k) = of_int (- n) * 2 powr of_int k"
      using n k by (intro fl_dyadic_pos) simp_all
    then show ?thesis using fl_minus [of "of_int n * 2 powr of_int k"] by simp
  qed
qed

lemma fl_int: "\<bar>n\<bar> < 2 ^ 53 \<Longrightarrow> fl (of_int n) = of_int n"
  using fl_dyadic [of n 0] by simp

lemma fl_pow2: "fl (2 ^ m) = 2 ^ m"
proof -
  have "fl (of_int 1 * 2 powr of_int (int m)) = of_int 1 * 2 powr of_int (int m)"
    by (rule fl_dyadic) simp_all
  then show ?thesis by (simp add: powr_realpow)
qed

lemma fl_frac: "\<bar>n\<bar> < 2 ^ 53 \<Longrightarrow> j \<le> 1074 \<Longrightarrow> fl (of_int n / 2 ^ j) = of_int n / 2 ^ j"
proof -
  assume n: "\<bar>n\<bar> < 2 ^ 53" and j: "j \<le> 1074"
  have "fl (of_int n * 2 powr of_int (- int j)) = of_int n * 2 powr of_int (- int j)"
    using n j by (intro fl_dyadic) simp_all
  moreover have "(2::real) powr of_int (- int j) = 1 / 2 ^ j"
    by (simp add: powr_minus powr_realpow inverse_eq_divide)
  ultimately show ?thesis by simp
qed

lemma rnd_not_NaN: "rnd x \<noteq> NaN"
  by (simp add: rnd_def Let_def)

lemma rnd_mono: "x \<le> y \<Longrightarrow> js_le (rnd x) (rnd y)"
  using fl_mono [of x y] by (simp add: rnd_def Let_def)

lemma fl_threshold: "fl overflow_threshold = overflow_threshold"
  unfolding overflow_threshold_def by (rule fl_pow2)

lemma threshold_pos: "0 < overflow_threshold"
  unfolding overflow_threshold_def by (rule zero_less_power) simp

lemma half_threshold: "2 * 2 ^ 1023 = overflow_threshold"
  by (simp add: overflow_threshold_def)

lemma rnd_finite: "\<bar>x\<bar> \<le> 2 ^ 1023 \<Longrightarrow> rnd x = Num (fl x)"
proof -
  assume "\<bar>x\<bar> \<le> 2 ^ 1023"
  then have "x \<le> 2 ^ 1023" "- (2 ^ 1023) \<le> x" by linarith+
  then have "fl x \<le> fl (2 ^ 1023)" "fl (- (2 ^ 1023)) \<le> fl x" by (simp_all only: fl_mono)
  then have b: "fl x \<le> 2 ^ 1023" "- (2 ^ 1023) \<le> fl x"
    unfolding fl_minus fl_pow2 .
  have "(0::real) < 2 ^ 1023" by (rule zero_less_power) simp
  then have "(2::real) ^ 1023 < overflow_threshold" using half_threshold by linarith
  then have "\<not> overflow_threshold \<le> fl x" "\<not> fl x \<le> - overflow_threshold"
    using b by linarith+
  then show ?thesis by (simp add: rnd_def Let_def)
qed

lemma rnd_overflow: "overflow_threshold \<le> x \<Longrightarrow> rnd x = PosInfinity"
  using fl_mono [of overflow_threshold x] by (simp add: rnd_def Let_def fl_threshold)

lemma rnd_underflow: "x \<le> - overflow_threshold \<Longrightarrow> rnd x = NegInfinity"
proof -
  assume "x \<le> - overflow_threshold"
  then have "fl x \<le> fl (- overflow_threshold)" by (rule fl_mono)
  then have "fl x \<le> - overflow_threshold" by (simp add: fl_minus fl_threshold)
  then show ?thesis using threshold_pos by (simp add: rnd_def Let_def)
qed

lemma rnd_0: "rnd 0 = Num 0"
  using threshold_pos by (simp add: rnd_def Let_def fl_0)

lemma rnd_nonneg: "0 \<le> x \<Longrightarrow> js_le (Num 0) (rnd x)"
  using rnd_mono [of 0 x] by (simp add: rnd_0)

lemma is_double_int: "\<bar>n\<bar> < 2 ^ 53 \<Longrightarrow> is_double (of_int n)"
proof -
  assume n: "\<bar>n\<bar> < 2 ^ 53"
  then have "real_of_int \<bar>n\<bar> < real_of_int (2 ^ 53)" by (rule of_int_less_iff [THEN iffD2])
  then have "\<bar>real_of_int n\<bar> \<le> 2 ^ 53" by simp
  moreover have "(2::real) ^ 53 \<le> 2 ^ 1023" by (rule power_increasing) simp_all
  ultimately have "\<bar>real_of_int n\<bar> \<le> 2 ^ 1023" by (rule order_trans)
  then show ?thesis using n by (simp add: is_double_def rnd_finite fl_int)
qed


lemma rnd_int: "\<bar>n\<bar> < 2 ^ 53 \<Longrightarrow> rnd (of_int n) = Num (of_int n)"
  using is_double_int [of n] by (simp add: is_double_def)

lemma is_doubleD: "is_double x \<Longrightarrow> fl x = x \<and> x < overflow_threshold \<and> - overflow_threshold < x"
  by (auto simp: is_double_def rnd_def Let_def split: if_splits)

lemma rnd_Num_bounds: "rnd x = Num y \<Longrightarrow> y = fl x \<and> y < overflow_threshold \<and> - overflow_threshold < y"
  by (auto simp: rnd_def Let_def split: if_splits)

lemma rnd_bounded: "- y \<le> x \<Longrightarrow> x \<le> y \<Longrightarrow> is_double y \<Longrightarrow> rnd x = Num (fl x)"
proof -
  assume lo: "- y \<le> x" and hi: "x \<le> y" and d: "is_double y"
  have y: "fl y = y" "y < overflow_threshold" using is_doubleD [OF d] by simp_all
  have "fl x \<le> fl y" using hi by (rule fl_mono)
  moreover have "fl (- y) \<le> fl x" using lo by (rule fl_mono)
  ultimately have "fl x < overflow_threshold" "- overflow_threshold < fl x"
    using y by (simp_all add: fl_minus)
  then show ?thesis by (simp add: rnd_def Let_def)
qed

lemma fl_le_int: "x \<le> of_int n \<Longrightarrow> \<bar>n\<bar> < 2 ^ 53 \<Longrightarrow> fl x \<le> of_int n"
  using fl_mono [of x "of_int n"] by (simp add: fl_int)

lemma fl_ge_int: "of_int n \<le> x \<Longrightarrow> \<bar>n\<bar> < 2 ^ 53 \<Longrightarrow> of_int n \<le> fl x"
  using fl_mono [of "of_int n" x] by (simp add: fl_int)

lemma fl_ge_frac: "of_int n / 2 ^ j \<le> x \<Longrightarrow> \<bar>n\<bar> < 2 ^ 53 \<Longrightarrow> j \<le> 1074 \<Longrightarrow> of_int n / 2 ^ j \<le> fl x"
  using fl_mono [of "of_int n / 2 ^ j" x] by (simp add: fl_frac)

lemma literal_bounds:
  "1 / 4 \<le> fl 0.48" "fl 0.48 \<le> 1" "1 / 4 \<le> fl 0.52" "fl 0.52 \<le> 1"
  "1 / 4 \<le> fl 0.55" "fl 0.55 \<le> 1" "1 / 4 \<le> fl 0.5" "fl 0.5 \<le> 1"
  "1 / 256 \<le> fl 0.0065" "fl 0.0065 \<le> 1" "1 / 256 \<le> fl 0.007" "fl 0.007 \<le> 1"
  "1 / 256 \<le> fl 0.0075" "fl 0.0075 \<le> 1" "1 / 256 \<le> fl 0.0068" "fl 0.0068 \<le> 1"
  "0 \<le> fl 1.48" "fl 1.48 \<le> 2" "0 \<le> fl 1.52" "fl 1.52 \<le> 2"
  "0 \<le> fl 1.55" "fl 1.55 \<le> 2" "0 \<le> fl 1.5" "fl 1.5 \<le> 2"
  "1 \<le> fl 1.2" "1 / 2 \<le> fl 0.8" "1 \<le> fl 1.6" "1 \<le> fl 1.8" "1 \<le> fl 1.7"
  "1 \<le> fl 1.9" "1 \<le> fl 1.5" "1 \<le> fl 1.15"
  using fl_ge_frac [of 1 2 "0.48"] fl_le_int [of "0.48" 1] fl_ge_frac [of 1 2 "0.52"] fl_le_int [of "0.52" 1]
    fl_ge_frac [of 1 2 "0.55"] fl_le_int [of "0.55" 1] fl_ge_frac [of 1 2 "0.5"] fl_le_int [of "0.5" 1]
    fl_ge_frac [of 1 8 "0.0065"] fl_le_int [of "0.0065" 1] fl_ge_frac [of 1 8 "0.007"] fl_le_int [of "0.007" 1]
    fl_ge_frac [of 1 8 "0.0075"] fl_le_int [of "0.0075" 1] fl_ge_frac [of 1 8 "0.0068"] fl_le_int [of "0.0068" 1]
    fl_ge_int [of 0 "1.48"] fl_le_int [of "1.48" 2] fl_ge_int [of 0 "1.52"] fl_le_int [of "1.52" 2]
    fl_ge_int [of 0 "1.55"] fl_le_int [of "1.55" 2] fl_ge_int [of 0 "1.5"] fl_le_int [of "1.5" 2]
    fl_ge_int [of 1 "1.2"] fl_ge_frac [of 1 1 "0.8"] fl_ge_int [of 1 "1.6"] fl_ge_int [of 1 "1.8"]
    fl_ge_int [of 1 "1.7"] fl_ge_int [of 1 "1.9"] fl_ge_int [of 1 "1.5"] fl_ge_int [of 1 "1.15"]
  by simp_all

lemma coef_bounds:
  "0 < b (coeficientesRegionales z) \<and> b (coeficientesRegionales z) \<le> 1 \<and>
   0 < c (coeficientesRegionales z) \<and> c (coeficientesRegionales z) \<le> 1 \<and>
   0 \<le> a (coeficientesRegionales z) \<and> a (coeficientesRegionales z) \<le> 2"
  using literal_bounds by (cases z) (simp_all add: coeficientesRegionales_def)

lemma factorProfundidad_pos: "0 < factorProfundidad p"
  using literal_bounds by (simp add: factorProfundidad_def)

lemma factoresSuelo_pos: "0 < factoresSuelo s"
  using literal_bounds by (cases s) (simp_all add: factoresSuelo_def)

section \<open>Properties of the regional classification\<close>

text \<open>
  C9: \<open>regionToMacroZone\<close> is total and never fails: each of the sixteen region codes
  maps to its macro-zone (the four northern codes to Norte, the five central ones to
  Centro, the five southern ones to Sur, the two austral ones to Austral), and every
  other string, the empty one included, maps to Centro.
\<close>

theorem regionToMacroZone_total:
  "regionToMacroZone ''15'' = Norte \<and> regionToMacroZone ''01'' = Norte \<and>
   regionToMacroZone ''02'' = Norte \<and> regionToMacroZone ''03'' = Norte \<and>
   regionToMacroZone ''04'' = Centro \<and> regionToMacroZone ''05'' = Centro \<and>
   regionToMacroZone ''13'' = Centro \<and> regionToMacroZone ''06'' = Centro \<and>
   regionToMacroZone ''07'' = Centro \<and>
   regionToMacroZone ''16'' = Sur \<and> regionToMacroZone ''08'' = Sur \<and>
   regionToMacroZone ''09'' = Sur \<and> regionToMacroZone ''14'' = Sur \<and>
   regionToMacroZone ''10'' = Sur \<and>
   regionToMacroZone ''11'' = Austral \<and> regionToMacroZone ''12'' = Austral \<and>
   (r \<notin> set [''15'', ''01'', ''02'', ''03'', ''04'', ''05'', ''13'', ''06'', ''07'',
               ''16'', ''08'', ''09'', ''14'', ''10'', ''11'', ''12'']
      \<longrightarrow> regionToMacroZone r = Centro)"
  by (simp add: regionToMacroZone_def)

theorem regionToMacroZone_total_witness:
  "[] \<notin> set [''15'', ''01'', ''02'', ''03'', ''04'', ''05'', ''13'', ''06'', ''07'',
               ''16'', ''08'', ''09'', ''14'', ''10'', ''11'', ''12''] \<and>
   regionToMacroZone [] = Centro \<and> regionToMacroZone ''15'' = Norte \<and>
   regionToMacroZone ''12'' = Austral"
  using regionToMacroZone_total [of "[]"] by simp

section \<open>Properties of the intensity estimator\<close>

lemma js_le_refl: "v \<noteq> NaN \<Longrightarrow> js_le v v"
  by (cases v) simp_all

lemma js_le_not_NaN: "js_le u v \<Longrightarrow> u \<noteq> NaN \<and> v \<noteq> NaN"
  by (cases u; cases v) simp_all

lemma js_sub_Num_not_NaN: "u \<noteq> NaN \<Longrightarrow> js_sub u (Num y) \<noteq> NaN"
  by (cases u) (simp_all add: rnd_not_NaN)

lemma js_mul_pos_not_NaN: "u \<noteq> NaN \<Longrightarrow> 0 < y \<Longrightarrow> js_mul u (Num y) \<noteq> NaN"
  by (cases u) (simp_all add: rnd_not_NaN)

lemma js_sub_mono: "js_le u u' \<Longrightarrow> y' \<le> y \<Longrightarrow> js_le (js_sub u (Num y)) (js_sub u' (Num y'))"
proof (cases u; cases u')
  fix x x' assume "u = Num x" "u' = Num x'" "js_le u u'" "y' \<le> y"
  then show ?thesis using rnd_mono [of "x - y" "x' - y'"] by simp
next
  fix x assume u: "u = Num x" "u' = PosInfinity"
  then show ?thesis using rnd_not_NaN [of "x - y"] by (cases "rnd (x - y)") simp_all
next
  fix x' assume u: "u = NegInfinity" "u' = Num x'"
  then show ?thesis using rnd_not_NaN [of "x' - y'"] by (cases "rnd (x' - y')") simp_all
qed simp_all

lemma js_mul_pos_mono: "js_le u u' \<Longrightarrow> 0 < y \<Longrightarrow> js_le (js_mul u (Num y)) (js_mul u' (Num y))"
proof (cases u; cases u')
  fix x x' assume "u = Num x" "u' = Num x'" "js_le u u'" "0 < y"
  then show ?thesis using rnd_mono [of "x * y" "x' * y"] by simp
next
  fix x assume u: "u = Num x" "u' = PosInfinity" and "0 < y"
  then show ?thesis using rnd_not_NaN [of "x * y"] by (cases "rnd (x * y)") simp_all
next
  fix x' assume u: "u = NegInfinity" "u' = Num x'" and "0 < y"
  then show ?thesis using rnd_not_NaN [of "x' * y"] by (cases "rnd (x' * y)") simp_all
qed simp_all

lemma Math_round_mono: "js_le u u' \<Longrightarrow> js_le (Math_round u) (Math_round u')"
proof (cases u; cases u')
  fix x x' assume "u = Num x" "u' = Num x'" "js_le u u'"
  then have "\<lfloor>x + 1 / 2\<rfloor> \<le> \<lfloor>x' + 1 / 2\<rfloor>" by (intro floor_mono) simp
  then have "real_of_int \<lfloor>x + 1 / 2\<rfloor> \<le> real_of_int \<lfloor>x' + 1 / 2\<rfloor>" by simp
  then show ?thesis using \<open>u = Num x\<close> \<open>u' = Num x'\<close> by simp
qed simp_all

lemma Math_round_not_NaN: "u \<noteq> NaN \<Longrightarrow> Math_round u \<noteq> NaN"
  by (cases u) simp_all

lemma Math_max_mono: "js_le u u' \<Longrightarrow> js_le (Math_max (Num k) u) (Math_max (Num k) u')"
  by (cases u; cases u') simp_all

lemma Math_min_mono: "js_le u u' \<Longrightarrow> js_le (Math_min (Num k) u) (Math_min (Num k) u')"
  by (cases u; cases u') simp_all

lemma clamp_range:
  "u \<noteq> NaN \<Longrightarrow>
     \<exists>n::int. Math_min (Num 12) (Math_max (Num 1) (Math_round u)) = Num (of_int n) \<and>
              1 \<le> n \<and> n \<le> 12"
proof (cases u)
  case (Num x)
  let ?n = "min 12 (max 1 \<lfloor>x + 1 / 2\<rfloor>)"
  have "Math_min (Num 12) (Math_max (Num 1) (Math_round u)) = Num (of_int ?n)"
    using Num by (simp add: min_def max_def)
  moreover have "1 \<le> ?n \<and> ?n \<le> 12" by simp
  ultimately show ?thesis by blast
next
  case PosInfinity
  then have "Math_min (Num 12) (Math_max (Num 1) (Math_round u)) = Num (of_int 12)" by simp
  then show ?thesis by (intro exI [of _ 12]) simp
next
  case NegInfinity
  then have "Math_min (Num 12) (Math_max (Num 1) (Math_round u)) = Num (of_int 1)" by simp
  then show ?thesis by (intro exI [of _ 1]) simp
next
  case NaN
  assume "u \<noteq> NaN"
  then show ?thesis using NaN by simp
qed

lemma term_a_not_NaN: "js_mul (Num x) (Num m) \<noteq> NaN"
  by (simp add: rnd_not_NaN)

lemma is_double_1074: "is_double 1074"
  using is_double_int [of 1074] by simp

lemma term_b_finite:
  assumes "0 < bb" "bb \<le> 1" "\<bar>l\<bar> \<le> 1074"
  shows "js_mul (Num bb) (Num l) = Num (fl (bb * l))"
proof -
  have "\<bar>bb * l\<bar> \<le> 1 * 1074" unfolding abs_mult using assms by (intro mult_mono) simp_all
  then have "- 1074 \<le> bb * l" "bb * l \<le> 1074" by linarith+
  then show ?thesis using rnd_bounded [of 1074 "bb * l"] is_double_1074 by simp
qed

lemma term_c_finite:
  assumes "0 < cc" "cc \<le> 1" "0 < d" "is_double d"
  shows "js_mul (Num cc) (Num d) = Num (fl (cc * d))"
proof -
  have "cc * d \<le> 1 * d" using assms by (intro mult_right_mono) simp_all
  moreover have "0 \<le> cc * d" using assms by simp
  ultimately have "- d \<le> cc * d" "cc * d \<le> d" using assms(3) by linarith+
  then show ?thesis using rnd_bounded [of d "cc * d"] assms(4) by simp
qed

lemma log10_finite:
  "engine_ok L \<Longrightarrow> is_double d \<Longrightarrow> 0 < d \<Longrightarrow>
     Math_log10 L (Num d) = Num (m_log10 L d) \<and> \<bar>m_log10 L d\<bar> \<le> 1074"
  by (simp add: engine_ok_def)

lemma log10_mono:
  "engine_ok L \<Longrightarrow> is_double d1 \<Longrightarrow> is_double d2 \<Longrightarrow> 0 < d1 \<Longrightarrow> d1 \<le> d2 \<Longrightarrow>
     m_log10 L d1 \<le> m_log10 L d2"
  by (simp add: engine_ok_def)

lemma estimar_unfold:
  assumes "engine_ok L" "is_double d" "0 < d"
  shows "estimarIntensidadLocal L m p d s r =
           Math_min (Num 12) (Math_max (Num 1) (Math_round
             (js_mul (js_mul (base0_of L m d r) (Num (factorProfundidad p)))
                     (Num (factoresSuelo s)))))"
proof -
  let ?k = "coeficientesRegionales (regionToMacroZone r)"
  have k: "0 < b ?k" "b ?k \<le> 1" "0 < c ?k" "c ?k \<le> 1" using coef_bounds [of "regionToMacroZone r"] by simp_all
  have l: "Math_log10 L (Num d) = Num (m_log10 L d)" "\<bar>m_log10 L d\<bar> \<le> 1074"
    using log10_finite [OF assms] by simp_all
  have tb: "js_mul (Num (b ?k)) (Num (m_log10 L d)) = Num (fl (b ?k * m_log10 L d))"
    using k l(2) by (intro term_b_finite)
  have tc: "js_mul (Num (c ?k)) (Num d) = Num (fl (c ?k * d))"
    using k assms by (intro term_c_finite)
  show ?thesis
    unfolding estimarIntensidadLocal_def base0_of_def Let_def l(1) tb tc ..
qed

lemma base0_not_NaN: "base0_of L m d r \<noteq> NaN"
  unfolding base0_of_def Let_def
  by (intro js_sub_Num_not_NaN term_a_not_NaN)

lemma base0_antimono:
  assumes "engine_ok L" "is_double d1" "is_double d2" "0 < d1" "d1 \<le> d2"
  shows "js_le (base0_of L m d2 r) (base0_of L m d1 r)"
proof -
  let ?k = "coeficientesRegionales (regionToMacroZone r)"
  have k: "0 < b ?k" "0 < c ?k" using coef_bounds [of "regionToMacroZone r"] by simp_all
  have "m_log10 L d1 \<le> m_log10 L d2" using assms by (rule log10_mono)
  then have "b ?k * m_log10 L d1 \<le> b ?k * m_log10 L d2" using k by simp
  then have 1: "fl (b ?k * m_log10 L d1) \<le> fl (b ?k * m_log10 L d2)" by (rule fl_mono)
  have "c ?k * d1 \<le> c ?k * d2" using k assms(5) by simp
  then have 2: "fl (c ?k * d1) \<le> fl (c ?k * d2)" by (rule fl_mono)
  have "js_le (js_mul (Num (a ?k)) (Num m)) (js_mul (Num (a ?k)) (Num m))"
    by (intro js_le_refl term_a_not_NaN)
  then have "js_le (js_sub (js_mul (Num (a ?k)) (Num m)) (Num (fl (b ?k * m_log10 L d2))))
                   (js_sub (js_mul (Num (a ?k)) (Num m)) (Num (fl (b ?k * m_log10 L d1))))"
    using 1 by (rule js_sub_mono)
  then show ?thesis unfolding base0_of_def Let_def using 2 by (rule js_sub_mono)
qed

text \<open>
  C1: for a finite magnitude, any depth, a distance that is a finite number greater than
  0, any of the eight soil types and any region code, \<open>estimarIntensidadLocal\<close>
  returns a finite integer between 1 and 12, on every engine whose logarithm of such a
  distance is finite. The function of the model is total: there is no call that throws.
\<close>

theorem estimarIntensidadLocal_range:
  "engine_ok L \<Longrightarrow> is_double d \<Longrightarrow> 0 < d \<Longrightarrow>
     \<exists>n::int. estimarIntensidadLocal L m p d s r = Num (of_int n) \<and> 1 \<le> n \<and> n \<le> 12"
proof -
  assume h: "engine_ok L" "is_double d" "0 < d"
  have "js_mul (base0_of L m d r) (Num (factorProfundidad p)) \<noteq> NaN"
    using base0_not_NaN factorProfundidad_pos by (rule js_mul_pos_not_NaN)
  then have "js_mul (js_mul (base0_of L m d r) (Num (factorProfundidad p)))
                    (Num (factoresSuelo s)) \<noteq> NaN"
    using factoresSuelo_pos by (rule js_mul_pos_not_NaN)
  then show ?thesis unfolding estimar_unfold [OF h] by (rule clamp_range)
qed

text \<open>
  C6: with magnitude, depth, soil type and region code fixed, the estimated intensity
  does not increase with the distance: for finite distances \<open>0 < d1 \<le> d2\<close> the
  intensity at \<open>d2\<close> is less than or equal to the intensity at \<open>d1\<close>, in the source's
  own comparison, on every engine whose logarithm does not decrease.
\<close>

theorem estimarIntensidadLocal_antimono:
  "engine_ok L \<Longrightarrow> is_double d1 \<Longrightarrow> is_double d2 \<Longrightarrow> 0 < d1 \<Longrightarrow> d1 \<le> d2 \<Longrightarrow>
     js_le (estimarIntensidadLocal L m p d2 s r) (estimarIntensidadLocal L m p d1 s r)"
proof -
  assume h: "engine_ok L" "is_double d1" "is_double d2" "0 < d1" "d1 \<le> d2"
  then have d2: "0 < d2" by simp
  have "js_le (base0_of L m d2 r) (base0_of L m d1 r)" using h by (rule base0_antimono)
  then have "js_le (js_mul (base0_of L m d2 r) (Num (factorProfundidad p)))
                   (js_mul (base0_of L m d1 r) (Num (factorProfundidad p)))"
    using factorProfundidad_pos by (rule js_mul_pos_mono)
  then have "js_le (js_mul (js_mul (base0_of L m d2 r) (Num (factorProfundidad p))) (Num (factoresSuelo s)))
                   (js_mul (js_mul (base0_of L m d1 r) (Num (factorProfundidad p))) (Num (factoresSuelo s)))"
    using factoresSuelo_pos by (rule js_mul_pos_mono)
  then show ?thesis
    unfolding estimar_unfold [OF h(1,2,4)] estimar_unfold [OF h(1,3) d2]
    by (intro Math_min_mono Math_max_mono Math_round_mono)
qed

lemma ulp_lower: "2 powr (- 1074) \<le> ulp x"
proof -
  have "real_of_int (- 1022) \<le> real_of_int (expo x)"
    using expo_ge [of x] by (rule of_int_le_iff [THEN iffD2])
  then have "- 1074 \<le> real_of_int (expo x) - 52" by simp
  then show ?thesis unfolding ulp_def by (intro powr_mono) simp_all
qed

lemma pos_double_lower: "is_double x \<Longrightarrow> 0 < x \<Longrightarrow> 2 powr (- 1074) \<le> x"
proof -
  assume d: "is_double x" and pos: "0 < x"
  have fx: "fl x = x" using is_doubleD [OF d] by simp
  define n where "n = rne (x / ulp x)"
  have x: "x = of_int n * ulp x" using fx pos by (simp add: fl_pos_eq n_def)
  have "0 < real_of_int n * ulp x" using pos x by simp
  then have "0 < real_of_int n" using ulp_pos [of x] by (simp add: zero_less_mult_iff)
  then have "1 \<le> n" by simp
  then have "real_of_int 1 \<le> real_of_int n" by (rule of_int_le_iff [THEN iffD2])
  then have "1 * ulp x \<le> real_of_int n * ulp x" using ulp_pos [of x] by (intro mult_right_mono) simp_all
  then have "ulp x \<le> x" using x by simp
  then show ?thesis using ulp_lower [of x] by linarith
qed

lemma log10_2_bounds: "0 \<le> log 10 2" "log 10 2 \<le> 1"
proof -
  show "0 \<le> log 10 2" by simp
  have "log 10 2 \<le> log 10 10" by (subst log_le_cancel_iff) simp_all
  then show "log 10 2 \<le> 1" by simp
qed

lemma log10_double_bounds:
  assumes d: "is_double x" and pos: "0 < x"
  shows "- 1074 \<le> log 10 x" "log 10 x \<le> 1074"
proof -
  have lo: "2 powr (- 1074) \<le> x" using d pos by (rule pos_double_lower)
  have "log 10 (2 powr (- 1074)) \<le> log 10 x"
    using lo pos by (subst log_le_cancel_iff) simp_all
  moreover have "log 10 (2 powr (- 1074)) = - 1074 * log 10 2" by (simp add: log_powr)
  moreover have "- 1074 * 1 \<le> - 1074 * log 10 2" using log10_2_bounds by simp
  ultimately show "- 1074 \<le> log 10 x" by linarith
  have "x < overflow_threshold" using is_doubleD [OF d] by simp
  then have "x \<le> 2 powr 1024" by (simp add: overflow_threshold_def)
  then have "log 10 x \<le> log 10 (2 powr 1024)"
    using pos by (subst log_le_cancel_iff) simp_all
  moreover have "log 10 (2 powr 1024) = 1024 * log 10 2" by (rule log_powr)
  moreover have "1024 * log 10 2 \<le> 1024 * 1" using log10_2_bounds by simp
  ultimately show "log 10 x \<le> 1074" by linarith
qed

lemma atan2_exact_nonneg: "js_le (Num 0) y \<Longrightarrow> x \<noteq> NaN \<Longrightarrow> 0 \<le> atan2_exact y x"
proof (cases y; cases x)
  fix v w assume yx: "y = Num v" "x = Num w" and "js_le (Num 0) y"
  then have v: "0 \<le> v" by simp
  show ?thesis
  proof (cases "0 < w")
    case True
    then show ?thesis using v yx by simp
  next
    case False
    show ?thesis
    proof (cases "w < 0")
      case True
      have "- (pi / 2) < arctan (v / w)" by (rule arctan_lbound)
      then have "0 \<le> arctan (v / w) + pi" using pi_gt_zero by linarith
      then show ?thesis using True v yx by simp
    next
      case False
      then show ?thesis using \<open>\<not> 0 < w\<close> v yx by simp
    qed
  qed
qed simp_all

lemma ref_engine_ok: "engine_ok ref_engine"
proof -
  have 1: "\<bar>m_log10 ref_engine x\<bar> \<le> 1074" if "0 < x \<and> is_double x" for x
  proof -
    have "- 1074 \<le> log 10 x" "log 10 x \<le> 1074" using that log10_double_bounds by simp_all
    then have "of_int (- 1074) \<le> fl (log 10 x)" "fl (log 10 x) \<le> of_int 1074"
      using fl_ge_int [of "- 1074" "log 10 x"] fl_le_int [of "log 10 x" 1074] by simp_all
    then show ?thesis by (simp add: ref_engine_def)
  qed
  have 2: "m_log10 ref_engine x \<le> m_log10 ref_engine y"
    if "0 < x \<and> x \<le> y \<and> is_double x \<and> is_double y" for x y
    using that by (simp add: ref_engine_def fl_mono)
  have 3: "js_le (Num 0) (m_pow2 ref_engine x)" for x
    by (simp add: ref_engine_def rnd_nonneg)
  have 4: "m_pow2 ref_engine (- x) = m_pow2 ref_engine x" for x
    by (simp add: ref_engine_def)
  have 5: "0 \<le> m_atan2 ref_engine y x" if "js_le (Num 0) y \<and> x \<noteq> NaN" for y x
    using that by (simp add: ref_engine_def fl_nonneg atan2_exact_nonneg)
  show ?thesis unfolding engine_ok_def using 1 2 3 4 5 by blast
qed

lemma js_sub_NaN_right: "js_sub u NaN = NaN"
  by (cases u) simp_all

lemma js_mul_NaN_right: "js_mul u NaN = NaN"
  by (cases u) simp_all

lemma estimar_at_zero:
  assumes m: "- 1000 \<le> m"
  shows "estimarIntensidadLocal L m p 0 s r = Num 12"
proof -
  let ?k = "coeficientesRegionales (regionToMacroZone r)"
  have k: "0 < b ?k" "0 \<le> a ?k" "a ?k \<le> 2" using coef_bounds [of "regionToMacroZone r"] by simp_all
  have "- 2000 \<le> a ?k * m"
  proof (cases "0 \<le> m")
    case True
    then have "0 \<le> a ?k * m" using k by simp
    then show ?thesis by linarith
  next
    case False
    then have "2 * m \<le> a ?k * m" using k by (intro mult_right_mono_neg) simp_all
    then show ?thesis using m by linarith
  qed
  then have "js_le (rnd (- 2000)) (rnd (a ?k * m))" by (rule rnd_mono)
  moreover have "rnd (- 2000) = Num (- 2000)" using rnd_int [of "- 2000"] by simp
  ultimately have A: "js_le (Num (- 2000)) (js_mul (Num (a ?k)) (Num m))" by simp
  have B: "js_mul (Num (b ?k)) (Math_log10 L (Num 0)) = NegInfinity" using k by simp
  have 1: "js_sub (js_mul (Num (a ?k)) (Num m)) NegInfinity = PosInfinity"
    using A by (cases "js_mul (Num (a ?k)) (Num m)") simp_all
  have C: "js_mul (Num (c ?k)) (Num 0) = Num 0" by (simp add: rnd_0)
  show ?thesis
    unfolding estimarIntensidadLocal_def Let_def B 1 C
    using factorProfundidad_pos [of p] factoresSuelo_pos [of s] by simp
qed

lemma estimar_negative:
  "d < 0 \<Longrightarrow> estimarIntensidadLocal L m p d s r = NaN"
  by (simp add: estimarIntensidadLocal_def Let_def js_sub_NaN_right)

text \<open>
  The instance of C1 on the reference engine at magnitude 8.8, depth 30 km, distance
  50 km, rock, region 13.
\<close>

theorem estimarIntensidadLocal_range_witness:
  "engine_ok ref_engine \<and> is_double 50 \<and> (0::real) < 50 \<and>
   (\<exists>n::int. estimarIntensidadLocal ref_engine (fl 8.8) 30 50 Roca ''13'' = Num (of_int n) \<and>
             1 \<le> n \<and> n \<le> 12)"
  using estimarIntensidadLocal_range [of ref_engine 50 "fl 8.8" 30 Roca "''13''"] ref_engine_ok is_double_int [of 50]
  by simp

text \<open>The instance of C6 on the reference engine at distances 10 km and 20 km.\<close>

theorem estimarIntensidadLocal_antimono_witness:
  "engine_ok ref_engine \<and> is_double 10 \<and> is_double 20 \<and> (0::real) < 10 \<and> (10::real) \<le> 20 \<and>
   js_le (estimarIntensidadLocal ref_engine 7 30 20 Roca ''13'')
         (estimarIntensidadLocal ref_engine 7 30 10 Roca ''13'')"
  using estimarIntensidadLocal_antimono [of ref_engine 10 20 7 30 Roca "''13''"] ref_engine_ok is_double_int [of 10]
    is_double_int [of 20]
  by simp

text \<open>
  C2, as written, says that a distance of 0 or less is replaced by a positive floor
  before the logarithm is taken, so that the logarithm of 0 is never evaluated. The
  source passes the distance to \<open>Math.log10\<close> as it is: at distance 0 the logarithm is
  minus infinity and a magnitude 1 event gets intensity 12, and at distance -1 the
  result is not a number, which no floor would give.
\<close>

theorem estimarIntensidadLocal_floor_counterexample:
  "Math_log10 ref_engine (Num 0) = NegInfinity \<and>
   estimarIntensidadLocal ref_engine 1 10 0 Roca ''13'' = Num 12 \<and>
   estimarIntensidadLocal ref_engine 1 10 (- 1) Roca ''13'' = NaN"
  using estimar_at_zero [of 1 ref_engine 10 Roca "''13''"]
    estimar_negative [of "- 1" ref_engine 1 10 Roca "''13''"]
  by simp

text \<open>
  C2, amended: \<open>estimarIntensidadLocal\<close> has no floor on the distance. At distance 0
  the logarithm of 0 is evaluated and is minus infinity, the base intensity is plus
  infinity, and the result is 12 for every magnitude from -1000 up, whatever the depth,
  the soil and the region.
\<close>

theorem estimarIntensidadLocal_at_distance_zero:
  "- 1000 \<le> m \<Longrightarrow>
     Math_log10 L (Num 0) = NegInfinity \<and> estimarIntensidadLocal L m p 0 s r = Num 12"
  by (simp add: estimar_at_zero)

text \<open>The instance of the amended C2 at magnitude 5.\<close>

theorem estimarIntensidadLocal_at_distance_zero_witness:
  "(- 1000 :: real) \<le> 5 \<and> Math_log10 ref_engine (Num 0) = NegInfinity \<and>
   estimarIntensidadLocal ref_engine 5 10 0 Roca ''13'' = Num 12"
  using estimarIntensidadLocal_at_distance_zero [of 5 ref_engine 10 Roca "''13''"] by simp

section \<open>Properties of the arrival-time estimator\<close>

lemma velocity_literals:
  "4 \<le> fl 4.2" "fl 4.2 \<le> 5" "8 \<le> fl 8.2" "3 \<le> fl 3.8" "fl 3.8 \<le> 4" "7 \<le> fl 7.8"
  "4 \<le> fl 4.1" "fl 4.1 \<le> 5" "8 \<le> fl 8.1"
  using fl_ge_int [of 4 "4.2"] fl_le_int [of "4.2" 5] fl_ge_int [of 8 "8.2"]
    fl_ge_int [of 3 "3.8"] fl_le_int [of "3.8" 4] fl_ge_int [of 7 "7.8"]
    fl_ge_int [of 4 "4.1"] fl_le_int [of "4.1" 5] fl_ge_int [of 8 "8.1"]
  by simp_all

lemma velocidades_order:
  "0 < ondaS (velocidadesRegionales z) \<and>
   ondaS (velocidadesRegionales z) < ondaP (velocidadesRegionales z)"
  using velocity_literals by (cases z) (simp_all add: velocidadesRegionales_def)

lemma factorTopografico_pos: "0 < calcularFactorTopografico eLat eLon uLat uLon"
  using literal_bounds(32) by (simp add: calcularFactorTopografico_def Let_def)

lemma never_negative_iff: "\<not> js_lt v (Num 0) \<longleftrightarrow> v = NaN \<or> nonneg v"
  by (cases v) (simp_all add: nonneg_def not_less)

lemma nonneg_not_NaN: "nonneg v \<Longrightarrow> v \<noteq> NaN"
  by (cases v) (simp_all add: nonneg_def)

lemma nonneg_rnd: "0 \<le> x \<Longrightarrow> nonneg (rnd x)"
  unfolding nonneg_def by (rule rnd_nonneg)

lemma Math_sqrt_sign: "Math_sqrt u = NaN \<or> nonneg (Math_sqrt u)"
  by (cases u) (simp_all add: nonneg_def rnd_nonneg)

lemma Math_sqrt_nonneg: "nonneg u \<Longrightarrow> nonneg (Math_sqrt u)"
  by (cases u) (simp_all add: nonneg_def rnd_nonneg)

lemma Math_sqrt_NaN: "Math_sqrt u \<noteq> NaN \<Longrightarrow> u \<noteq> NaN"
  by (cases u) simp_all

lemma js_div_nonneg: "nonneg u \<Longrightarrow> 0 < v \<Longrightarrow> nonneg (js_div u (Num v))"
  by (cases u) (simp_all add: nonneg_def rnd_nonneg)

lemma js_div_NaN: "js_div NaN v = NaN"
  by simp

lemma js_div_antimono:
  "nonneg u \<Longrightarrow> 0 < v \<Longrightarrow> v \<le> w \<Longrightarrow> js_le (js_div u (Num w)) (js_div u (Num v))"
proof (cases u)
  case (Num t)
  assume "nonneg u" "0 < v" "v \<le> w"
  then have "t / w \<le> t / v" using Num by (intro divide_left_mono) (simp_all add: nonneg_def)
  then have "js_le (rnd (t / w)) (rnd (t / v))" by (rule rnd_mono)
  then show ?thesis using Num \<open>0 < v\<close> \<open>v \<le> w\<close> by simp
qed (simp_all add: nonneg_def)

lemma js_add_nonneg: "nonneg u \<Longrightarrow> nonneg v \<Longrightarrow> nonneg (js_add u v)"
  by (cases u; cases v) (simp_all add: nonneg_def rnd_nonneg)

lemma js_add_NaN: "js_add u v \<noteq> NaN \<Longrightarrow> u \<noteq> NaN \<and> v \<noteq> NaN"
  by (cases u; cases v) simp_all

lemma Math_pow2_nonneg: "engine_ok L \<Longrightarrow> u \<noteq> NaN \<Longrightarrow> nonneg (Math_pow2 L u)"
  by (cases u) (simp_all add: engine_ok_def nonneg_def)

lemma Math_pow2_NaN: "Math_pow2 L u \<noteq> NaN \<Longrightarrow> u \<noteq> NaN"
  by (cases u) simp_all

lemma js_mul_NaN_left: "js_mul u v \<noteq> NaN \<Longrightarrow> u \<noteq> NaN"
  by (cases u) simp_all

lemma js_mul_const_sign:
  "u = NaN \<or> nonneg u \<Longrightarrow> 0 < k \<Longrightarrow> js_mul (Num k) u = NaN \<or> nonneg (js_mul (Num k) u)"
  by (cases u) (simp_all add: nonneg_def rnd_nonneg)

lemma js_sub_le_sign: "js_le u v \<Longrightarrow> js_sub v u = NaN \<or> nonneg (js_sub v u)"
  by (cases u; cases v) (simp_all add: nonneg_def rnd_nonneg)

lemma js_sub_le_nonneg: "nonneg u \<Longrightarrow> js_le u (Num s) \<Longrightarrow> nonneg (js_sub (Num s) u)"
  by (cases u) (simp_all add: nonneg_def rnd_nonneg)

lemma Math_max_sign: "Math_max (Num 0) z = NaN \<or> nonneg (Math_max (Num 0) z)"
  by (cases z) (simp_all add: nonneg_def)

lemma Math_max_nonneg: "z \<noteq> NaN \<Longrightarrow> nonneg (Math_max (Num 0) z)"
  by (cases z) (simp_all add: nonneg_def)

lemma js_div_finite: "is_finite (js_div u (Num v)) \<Longrightarrow> is_finite u"
  by (cases u) (simp_all split: if_splits)

lemma calcular_fields:
  "tiempoOndaP (calcularTiempoLlegada L eLat eLon uLat uLon p r) =
     js_div (distanciaTotal L eLat eLon uLat uLon p)
            (Num (ondaP (velocidadesRegionales (regionToMacroZone r))))"
  "tiempoOndaS (calcularTiempoLlegada L eLat eLon uLat uLon p r) =
     js_div (distanciaTotal L eLat eLon uLat uLon p)
            (Num (ondaS (velocidadesRegionales (regionToMacroZone r))))"
  "diferenciaSegundos (calcularTiempoLlegada L eLat eLon uLat uLon p r) =
     js_sub (js_div (distanciaTotal L eLat eLon uLat uLon p)
                    (Num (ondaS (velocidadesRegionales (regionToMacroZone r)))))
            (js_div (distanciaTotal L eLat eLon uLat uLon p)
                    (Num (ondaP (velocidadesRegionales (regionToMacroZone r)))))"
  "tiempoAlerta (calcularTiempoLlegada L eLat eLon uLat uLon p r) =
     Math_max (Num 0)
       (js_sub (js_div (distanciaTotal L eLat eLon uLat uLon p)
                       (Num (ondaS (velocidadesRegionales (regionToMacroZone r)))))
               (Num 10))"
  "distanciaKm (calcularTiempoLlegada L eLat eLon uLat uLon p r) =
     calcularDistanciaHaversine L eLat eLon uLat uLon"
  by (simp_all add: calcularTiempoLlegada_def distanciaTotal_def Let_def)

lemma distanciaTotal_sign:
  "distanciaTotal L eLat eLon uLat uLon p = NaN \<or> nonneg (distanciaTotal L eLat eLon uLat uLon p)"
  unfolding distanciaTotal_def by (rule Math_sqrt_sign)

lemma distanciaTotal_nonneg:
  assumes "engine_ok L" "calcularDistanciaHaversine L eLat eLon uLat uLon \<noteq> NaN"
  shows "nonneg (distanciaTotal L eLat eLon uLat uLon p)"
proof -
  have "js_mul (calcularDistanciaHaversine L eLat eLon uLat uLon)
               (Num (calcularFactorTopografico eLat eLon uLat uLon)) \<noteq> NaN"
    using assms(2) factorTopografico_pos by (rule js_mul_pos_not_NaN)
  then have "nonneg (Math_pow2 L (js_mul (calcularDistanciaHaversine L eLat eLon uLat uLon)
               (Num (calcularFactorTopografico eLat eLon uLat uLon))))"
    using assms(1) by (intro Math_pow2_nonneg)
  moreover have "nonneg (Math_pow2 L (Num p))" using assms(1) by (intro Math_pow2_nonneg) simp_all
  ultimately show ?thesis
    unfolding distanciaTotal_def by (intro Math_sqrt_nonneg js_add_nonneg)
qed

lemma distanciaTotal_NaN:
  assumes "distanciaTotal L eLat eLon uLat uLon p \<noteq> NaN"
  shows "calcularDistanciaHaversine L eLat eLon uLat uLon \<noteq> NaN"
proof -
  define X where "X = js_mul (calcularDistanciaHaversine L eLat eLon uLat uLon)
                             (Num (calcularFactorTopografico eLat eLon uLat uLon))"
  have "Math_sqrt (js_add (Math_pow2 L X) (Math_pow2 L (Num p))) \<noteq> NaN"
    using assms by (simp add: distanciaTotal_def X_def)
  then have "js_add (Math_pow2 L X) (Math_pow2 L (Num p)) \<noteq> NaN" by (rule Math_sqrt_NaN)
  then have "Math_pow2 L X \<noteq> NaN" using js_add_NaN by blast
  then have "X \<noteq> NaN" by (rule Math_pow2_NaN)
  then show ?thesis unfolding X_def by (rule js_mul_NaN_left)
qed

lemma haversine_sign:
  assumes "engine_ok L"
  shows "calcularDistanciaHaversine L lat1 lon1 lat2 lon2 = NaN \<or>
         nonneg (calcularDistanciaHaversine L lat1 lon1 lat2 lon2)"
proof -
  define h where "h = haversine_a L lat1 lon1 lat2 lon2"
  have "Math_atan2 L (Math_sqrt h) (Math_sqrt (js_sub (Num 1) h)) = NaN \<or>
        nonneg (Math_atan2 L (Math_sqrt h) (Math_sqrt (js_sub (Num 1) h)))"
  proof (cases "Math_sqrt h = NaN \<or> Math_sqrt (js_sub (Num 1) h) = NaN")
    case True
    then show ?thesis by (simp add: Math_atan2_def)
  next
    case False
    then have "nonneg (Math_sqrt h)" using Math_sqrt_sign [of h] by simp
    then have "0 \<le> m_atan2 L (Math_sqrt h) (Math_sqrt (js_sub (Num 1) h))"
      using assms False by (simp add: engine_ok_def nonneg_def)
    then show ?thesis using False by (simp add: Math_atan2_def nonneg_def)
  qed
  then have "js_mul (Num 2) (Math_atan2 L (Math_sqrt h) (Math_sqrt (js_sub (Num 1) h))) = NaN \<or>
        nonneg (js_mul (Num 2) (Math_atan2 L (Math_sqrt h) (Math_sqrt (js_sub (Num 1) h))))"
    by (rule js_mul_const_sign) simp
  then have "js_mul (Num 6371) (js_mul (Num 2) (Math_atan2 L (Math_sqrt h) (Math_sqrt (js_sub (Num 1) h)))) = NaN \<or>
        nonneg (js_mul (Num 6371) (js_mul (Num 2) (Math_atan2 L (Math_sqrt h) (Math_sqrt (js_sub (Num 1) h)))))"
    by (rule js_mul_const_sign) simp
  then show ?thesis by (simp add: calcularDistanciaHaversine_def Let_def h_def)
qed

lemma p_wave_le_s_wave:
  assumes "nonneg (distanciaTotal L eLat eLon uLat uLon p)"
  shows "js_le (tiempoOndaP (calcularTiempoLlegada L eLat eLon uLat uLon p r))
               (tiempoOndaS (calcularTiempoLlegada L eLat eLon uLat uLon p r))"
  unfolding calcular_fields
  using assms velocidades_order [of "regionToMacroZone r"] by (intro js_div_antimono) simp_all

lemma tiempos_sign:
  "(tiempoOndaP (calcularTiempoLlegada L eLat eLon uLat uLon p r) = NaN \<or>
    nonneg (tiempoOndaP (calcularTiempoLlegada L eLat eLon uLat uLon p r))) \<and>
   (tiempoOndaS (calcularTiempoLlegada L eLat eLon uLat uLon p r) = NaN \<or>
    nonneg (tiempoOndaS (calcularTiempoLlegada L eLat eLon uLat uLon p r)))"
proof -
  have v: "0 < ondaS (velocidadesRegionales (regionToMacroZone r))"
          "0 < ondaP (velocidadesRegionales (regionToMacroZone r))"
    using velocidades_order [of "regionToMacroZone r"] by simp_all
  show ?thesis
  proof (cases "distanciaTotal L eLat eLon uLat uLon p = NaN")
    case True
    then show ?thesis unfolding calcular_fields by simp
  next
    case False
    then have "nonneg (distanciaTotal L eLat eLon uLat uLon p)"
      using distanciaTotal_sign [of L eLat eLon uLat uLon p] by simp
    then show ?thesis unfolding calcular_fields using v by (simp add: js_div_nonneg)
  qed
qed

text \<open>
  C3, as written, says that a call with a negative depth is rejected with an
  input-validation error. The source validates nothing: the call with depth -35 km
  returns a record like any other.
\<close>

theorem calcularTiempoLlegada_rejects_counterexample:
  "\<not> is_rejected
        (calcularTiempoLlegada_outcome ref_engine (- 33) (- fl 71.6) (- fl 33.45) (- fl 70.67)
           (- 35) ''13'')"
  by (simp add: calcularTiempoLlegada_outcome_def)

text \<open>
  C3, amended: \<open>calcularTiempoLlegada\<close> validates none of its arguments. Every call
  returns a record, for a negative depth as for a depth of 0 or more, and neither of the
  two arrival times of the record is ever negative.
\<close>

theorem calcularTiempoLlegada_always_returns:
  "\<not> is_rejected (calcularTiempoLlegada_outcome L eLat eLon uLat uLon p r) \<and>
   (\<exists>res. calcularTiempoLlegada_outcome L eLat eLon uLat uLon p r = Returns res \<and>
          \<not> js_lt (tiempoOndaP res) (Num 0) \<and> \<not> js_lt (tiempoOndaS res) (Num 0))"
  using tiempos_sign [of L eLat eLon uLat uLon p r]
  by (simp add: calcularTiempoLlegada_outcome_def never_negative_iff)

text \<open>
  C5, amended: in each of the four macro-zones the P-wave velocity exceeds the S-wave
  velocity, and for all finite coordinates, every depth and every region code for which
  the distance computed by \<open>calcularDistanciaHaversine\<close> is a number, the P-wave
  arrival time of the result is less than or equal to the S-wave arrival time.
\<close>

theorem calcularTiempoLlegada_p_before_s:
  "engine_ok L \<Longrightarrow>
     (\<forall>z. ondaS (velocidadesRegionales z) < ondaP (velocidadesRegionales z)) \<and>
     (distanciaKm (calcularTiempoLlegada L eLat eLon uLat uLon p r) \<noteq> NaN \<longrightarrow>
        js_le (tiempoOndaP (calcularTiempoLlegada L eLat eLon uLat uLon p r))
              (tiempoOndaS (calcularTiempoLlegada L eLat eLon uLat uLon p r)))"
proof -
  assume ok: "engine_ok L"
  have "js_le (tiempoOndaP (calcularTiempoLlegada L eLat eLon uLat uLon p r))
              (tiempoOndaS (calcularTiempoLlegada L eLat eLon uLat uLon p r))"
    if "distanciaKm (calcularTiempoLlegada L eLat eLon uLat uLon p r) \<noteq> NaN"
  proof -
    have "calcularDistanciaHaversine L eLat eLon uLat uLon \<noteq> NaN"
      using that by (simp add: calcular_fields)
    then have "nonneg (distanciaTotal L eLat eLon uLat uLon p)"
      using ok by (intro distanciaTotal_nonneg)
    then show ?thesis by (rule p_wave_le_s_wave)
  qed
  then show ?thesis using velocidades_order by blast
qed

lemma nonneg_of_sign: "v = NaN \<or> nonneg v \<Longrightarrow> v \<noteq> NaN \<Longrightarrow> nonneg v"
  by blast

lemma nonneg_le_Num: "nonneg u \<Longrightarrow> js_le u (Num s) \<Longrightarrow> nonneg (Num s)"
  by (cases u) (simp_all add: nonneg_def)

lemma js_sub_Num_Num_not_NaN: "js_sub (Num s) (Num t) \<noteq> NaN"
  by (simp add: rnd_not_NaN)

lemma is_finite_not_NaN: "is_finite v \<Longrightarrow> v \<noteq> NaN"
  by (cases v) simp_all

lemma is_finite_Num: "is_finite v \<Longrightarrow> \<exists>s. v = Num s"
  by (cases v) simp_all

lemma field_signs:
  assumes ok: "engine_ok L"
  shows "\<not> js_lt (tiempoOndaP (calcularTiempoLlegada L eLat eLon uLat uLon p r)) (Num 0)"
    and "\<not> js_lt (tiempoOndaS (calcularTiempoLlegada L eLat eLon uLat uLon p r)) (Num 0)"
    and "\<not> js_lt (diferenciaSegundos (calcularTiempoLlegada L eLat eLon uLat uLon p r)) (Num 0)"
    and "\<not> js_lt (tiempoAlerta (calcularTiempoLlegada L eLat eLon uLat uLon p r)) (Num 0)"
    and "\<not> js_lt (distanciaKm (calcularTiempoLlegada L eLat eLon uLat uLon p r)) (Num 0)"
proof -
  let ?res = "calcularTiempoLlegada L eLat eLon uLat uLon p r"
  show "\<not> js_lt (tiempoOndaP ?res) (Num 0)" "\<not> js_lt (tiempoOndaS ?res) (Num 0)"
    using tiempos_sign [of L eLat eLon uLat uLon p r] by (simp_all add: never_negative_iff)
  show "\<not> js_lt (diferenciaSegundos ?res) (Num 0)"
  proof (cases "distanciaTotal L eLat eLon uLat uLon p = NaN")
    case True
    then show ?thesis by (simp add: calcular_fields)
  next
    case False
    then have "nonneg (distanciaTotal L eLat eLon uLat uLon p)"
      using distanciaTotal_sign [of L eLat eLon uLat uLon p] by simp
    then have "js_le (tiempoOndaP ?res) (tiempoOndaS ?res)" by (rule p_wave_le_s_wave)
    then have "js_sub (tiempoOndaS ?res) (tiempoOndaP ?res) = NaN \<or>
               nonneg (js_sub (tiempoOndaS ?res) (tiempoOndaP ?res))"
      by (rule js_sub_le_sign)
    then show ?thesis by (simp add: never_negative_iff calcular_fields)
  qed
  show "\<not> js_lt (tiempoAlerta ?res) (Num 0)"
    unfolding calcular_fields never_negative_iff by (rule Math_max_sign)
  show "\<not> js_lt (distanciaKm ?res) (Num 0)"
    unfolding calcular_fields never_negative_iff using ok by (rule haversine_sign)
qed

lemma fields_nonneg:
  assumes ok: "engine_ok L"
    and fin: "is_finite (tiempoOndaS (calcularTiempoLlegada L eLat eLon uLat uLon p r))"
  shows "js_le (Num 0) (tiempoOndaP (calcularTiempoLlegada L eLat eLon uLat uLon p r))"
    and "js_le (Num 0) (tiempoOndaS (calcularTiempoLlegada L eLat eLon uLat uLon p r))"
    and "js_le (Num 0) (diferenciaSegundos (calcularTiempoLlegada L eLat eLon uLat uLon p r))"
    and "js_le (Num 0) (tiempoAlerta (calcularTiempoLlegada L eLat eLon uLat uLon p r))"
    and "js_le (Num 0) (distanciaKm (calcularTiempoLlegada L eLat eLon uLat uLon p r))"
proof -
  let ?res = "calcularTiempoLlegada L eLat eLon uLat uLon p r"
  let ?dt = "distanciaTotal L eLat eLon uLat uLon p"
  have v: "0 < ondaS (velocidadesRegionales (regionToMacroZone r))"
          "0 < ondaP (velocidadesRegionales (regionToMacroZone r))"
    using velocidades_order [of "regionToMacroZone r"] by simp_all
  have "is_finite ?dt" using fin unfolding calcular_fields by (rule js_div_finite)
  then have dt: "?dt \<noteq> NaN" by (rule is_finite_not_NaN)
  then have nn: "nonneg ?dt" using distanciaTotal_sign [of L eLat eLon uLat uLon p] by simp
  have P: "nonneg (tiempoOndaP ?res)" unfolding calcular_fields using nn v by (intro js_div_nonneg)
  have S: "nonneg (tiempoOndaS ?res)" unfolding calcular_fields using nn v by (intro js_div_nonneg)
  obtain s where s: "tiempoOndaS ?res = Num s" using fin is_finite_Num by blast
  have le: "js_le (tiempoOndaP ?res) (Num s)" using p_wave_le_s_wave [OF nn, of r] s by simp
  have D: "nonneg (js_sub (Num s) (tiempoOndaP ?res))" using P le by (rule js_sub_le_nonneg)
  have "nonneg (Math_max (Num 0) (js_sub (Num s) (Num 10)))"
    by (intro Math_max_nonneg js_sub_Num_Num_not_NaN)
  then have A: "nonneg (tiempoAlerta ?res)" using s by (simp add: calcular_fields)
  have "calcularDistanciaHaversine L eLat eLon uLat uLon \<noteq> NaN" using dt by (rule distanciaTotal_NaN)
  then have K: "nonneg (calcularDistanciaHaversine L eLat eLon uLat uLon)"
    using haversine_sign [OF ok, of eLat eLon uLat uLon] by simp
  show "js_le (Num 0) (tiempoOndaP ?res)" using P by (simp add: nonneg_def)
  show "js_le (Num 0) (tiempoOndaS ?res)" using S by (simp add: nonneg_def)
  show "js_le (Num 0) (diferenciaSegundos ?res)" using D s by (simp add: nonneg_def calcular_fields)
  show "js_le (Num 0) (tiempoAlerta ?res)" using A by (simp add: nonneg_def)
  show "js_le (Num 0) (distanciaKm ?res)" using K by (simp add: nonneg_def calcular_fields)
qed

lemma depth_even:
  "engine_ok L \<Longrightarrow>
     calcularTiempoLlegada L eLat eLon uLat uLon (- p) r =
     calcularTiempoLlegada L eLat eLon uLat uLon p r"
  by (simp add: calcularTiempoLlegada_def engine_ok_def)

text \<open>
  C10, amended: for all finite arguments of \<open>calcularTiempoLlegada\<close>, a negative depth
  included, none of the five fields of the result is negative; whenever the S-wave time
  of the result is finite, all five fields are 0 or more; and the result for depth
  \<open>- p\<close> is the result for depth \<open>p\<close>.
\<close>

theorem calcularTiempoLlegada_never_negative:
  "engine_ok L \<Longrightarrow>
     \<not> js_lt (tiempoOndaP (calcularTiempoLlegada L eLat eLon uLat uLon p r)) (Num 0) \<and>
     \<not> js_lt (tiempoOndaS (calcularTiempoLlegada L eLat eLon uLat uLon p r)) (Num 0) \<and>
     \<not> js_lt (diferenciaSegundos (calcularTiempoLlegada L eLat eLon uLat uLon p r)) (Num 0) \<and>
     \<not> js_lt (tiempoAlerta (calcularTiempoLlegada L eLat eLon uLat uLon p r)) (Num 0) \<and>
     \<not> js_lt (distanciaKm (calcularTiempoLlegada L eLat eLon uLat uLon p r)) (Num 0) \<and>
     (is_finite (tiempoOndaS (calcularTiempoLlegada L eLat eLon uLat uLon p r)) \<longrightarrow>
        js_le (Num 0) (tiempoOndaP (calcularTiempoLlegada L eLat eLon uLat uLon p r)) \<and>
        js_le (Num 0) (tiempoOndaS (calcularTiempoLlegada L eLat eLon uLat uLon p r)) \<and>
        js_le (Num 0) (diferenciaSegundos (calcularTiempoLlegada L eLat eLon uLat uLon p r)) \<and>
        js_le (Num 0) (tiempoAlerta (calcularTiempoLlegada L eLat eLon uLat uLon p r)) \<and>
        js_le (Num 0) (distanciaKm (calcularTiempoLlegada L eLat eLon uLat uLon p r))) \<and>
     calcularTiempoLlegada L eLat eLon uLat uLon (- p) r =
       calcularTiempoLlegada L eLat eLon uLat uLon p r"
  using field_signs [of L eLat eLon uLat uLon p r] fields_nonneg [of L eLat eLon uLat uLon p r]
    depth_even [of L eLat eLon uLat uLon p r]
  by blast

lemma rnd_1: "rnd 1 = Num 1"
  using rnd_int [of 1] by simp

lemma PI_over_180: "\<exists>k. js_div (Num Math_PI) (Num 180) = Num k \<and> 0 < k"
proof -
  have "pi \<le> 4" using pi_less_4 by simp
  then have hi: "fl pi \<le> 4" using fl_le_int [of pi 4] by simp
  have lo: "2 \<le> fl pi" using fl_ge_int [of 2 pi] pi_ge_two by simp
  have "- 1 \<le> fl pi / 180" "fl pi / 180 \<le> 1" using hi lo by simp_all
  then have r: "rnd (fl pi / 180) = Num (fl (fl pi / 180))"
    using rnd_bounded [of 1 "fl pi / 180"] is_double_int [of 1] by simp
  have "1 / 2 ^ 7 \<le> fl pi / 180" using lo by simp
  then have "1 / 2 ^ 7 \<le> fl (fl pi / 180)" using fl_ge_frac [of 1 7 "fl pi / 180"] by simp
  then have "0 < fl (fl pi / 180)" by simp
  then show ?thesis using r by (simp add: Math_PI_def)
qed

lemma toRadians_0: "toRadians (Num 0) = Num 0"
  using PI_over_180 by (auto simp: toRadians_def rnd_0)

lemma toRadians_NegInfinity: "toRadians NegInfinity = NegInfinity"
  using PI_over_180 by (auto simp: toRadians_def)

lemma fl_1: "fl 1 = 1"
  using fl_int [of 1] by simp

lemma haversine_a_same_point: "haversine_a ref_engine 0 0 0 0 = Num 0"
proof -
  have d: "js_sub (Num 0) (Num 0) = Num 0" by (simp add: rnd_0)
  have h: "js_div (Num 0) (Num 2) = Num 0" by (simp add: rnd_0)
  have s: "Math_sin ref_engine (Num 0) = Num 0" by (simp add: ref_engine_def fl_0)
  have c: "Math_cos ref_engine (Num 0) = Num 1" by (simp add: ref_engine_def fl_1)
  show ?thesis
    unfolding haversine_a_def Let_def d toRadians_0 h s c by (simp add: rnd_0 rnd_1)
qed

lemma haversine_same_point: "calcularDistanciaHaversine ref_engine 0 0 0 0 = Num 0"
proof -
  have q0: "Math_sqrt (Num 0) = Num 0" by (simp add: rnd_0)
  have one: "js_sub (Num 1) (Num 0) = Num 1" by (simp add: rnd_1)
  have q1: "Math_sqrt (Num 1) = Num 1" by (simp add: rnd_1)
  have at: "Math_atan2 ref_engine (Num 0) (Num 1) = Num 0"
    by (simp add: Math_atan2_def ref_engine_def fl_0)
  show ?thesis
    unfolding calcularDistanciaHaversine_def Let_def haversine_a_same_point q0 one q1 at
    by (simp add: rnd_0)
qed

lemma big_latitude_overflow: "js_sub (Num (- big_latitude)) (Num big_latitude) = NegInfinity"
proof -
  have "- big_latitude - big_latitude = - overflow_threshold"
    using half_threshold by (simp add: big_latitude_def)
  then have "rnd (- big_latitude - big_latitude) = NegInfinity" by (simp only: rnd_underflow order_refl)
  then show ?thesis by (simp only: js_sub.simps)
qed

lemma haversine_a_overflow: "haversine_a ref_engine big_latitude 0 (- big_latitude) 0 = NaN"
  unfolding haversine_a_def Let_def big_latitude_overflow toRadians_NegInfinity by simp

lemma haversine_overflow:
  "calcularDistanciaHaversine ref_engine big_latitude 0 (- big_latitude) 0 = NaN"
  unfolding calcularDistanciaHaversine_def Let_def haversine_a_overflow
  by (simp add: Math_atan2_def)

lemma big_depth_overflow: "Math_pow2 ref_engine (Num big_depth) = PosInfinity"
proof -
  have "big_depth * big_depth = overflow_threshold"
    by (simp add: big_depth_def overflow_threshold_def flip: power_add)
  then show ?thesis by (simp add: ref_engine_def rnd_overflow)
qed

lemma factor_same_point: "calcularFactorTopografico 0 0 0 0 = 1"
  by (simp add: calcularFactorTopografico_def rnd_0)

lemma arrival_overflow_coordinates:
  "tiempoOndaP (calcularTiempoLlegada ref_engine big_latitude 0 (- big_latitude) 0 35 ''13'') = NaN"
  unfolding calcular_fields distanciaTotal_def haversine_overflow by simp

text \<open>
  C5, as written, holds for any coordinates. The source validates nothing: with the two
  latitudes \<open>2 ^ 1023\<close> and \<open>- (2 ^ 1023)\<close>, both finite numbers, their difference
  overflows, its sine is not a number, and neither are the two arrival times, so the
  comparison \<open><=\<close> between them is false.
\<close>

theorem calcularTiempoLlegada_p_before_s_counterexample:
  "\<not> js_le (tiempoOndaP (calcularTiempoLlegada ref_engine big_latitude 0 (- big_latitude) 0 35 ''13''))
            (tiempoOndaS (calcularTiempoLlegada ref_engine big_latitude 0 (- big_latitude) 0 35 ''13''))"
  unfolding arrival_overflow_coordinates by simp

lemma distanciaTotal_big_depth: "distanciaTotal ref_engine 0 0 0 0 big_depth = PosInfinity"
proof -
  have x: "js_mul (Num 0) (Num 1) = Num 0" by (simp add: rnd_0)
  have p0: "Math_pow2 ref_engine (Num 0) = Num 0" by (simp add: ref_engine_def rnd_0)
  show ?thesis
    unfolding distanciaTotal_def haversine_same_point factor_same_point x p0 big_depth_overflow
    by simp
qed

lemma centro_velocities:
  "ondaP (velocidadesRegionales (regionToMacroZone ''13'')) = 8"
  "ondaS (velocidadesRegionales (regionToMacroZone ''13'')) = 4"
  by (simp_all add: regionToMacroZone_def velocidadesRegionales_def)

text \<open>
  C10, as written, holds for every input. With epicenter and user at the same point and
  the depth \<open>2 ^ 512\<close>, the square of the depth overflows, both arrival times are plus
  infinity and their difference is not a number, so it is not 0 or more.
\<close>

theorem calcularTiempoLlegada_nonneg_counterexample:
  "\<not> js_le (Num 0) (diferenciaSegundos (calcularTiempoLlegada ref_engine 0 0 0 0 big_depth ''13''))"
  unfolding calcular_fields distanciaTotal_big_depth centro_velocities by simp

lemma sqrt_1225: "sqrt 1225 = 35"
  by (rule real_sqrt_unique) simp_all

lemma distanciaTotal_depth_35: "distanciaTotal ref_engine 0 0 0 0 35 = Num 35"
proof -
  have x: "js_mul (Num 0) (Num 1) = Num 0" by (simp add: rnd_0)
  have p0: "Math_pow2 ref_engine (Num 0) = Num 0" by (simp add: ref_engine_def rnd_0)
  have p35: "Math_pow2 ref_engine (Num 35) = Num 1225"
    using rnd_int [of 1225] by (simp add: ref_engine_def)
  have a: "js_add (Num 0) (Num 1225) = Num 1225" using rnd_int [of 1225] by simp
  have q: "Math_sqrt (Num 1225) = Num 35" using rnd_int [of 35] by (simp add: sqrt_1225)
  show ?thesis
    unfolding distanciaTotal_def haversine_same_point factor_same_point x p0 p35 a q ..
qed

lemma s_wave_depth_35:
  "is_finite (tiempoOndaS (calcularTiempoLlegada ref_engine 0 0 0 0 35 ''13''))"
proof -
  have "- 35 \<le> (35 / 4 :: real)" "(35 / 4 :: real) \<le> 35" by simp_all
  then have "rnd (35 / 4) = Num (fl (35 / 4))"
    using rnd_bounded [of 35 "35 / 4"] is_double_int [of 35] by simp
  then show ?thesis
    unfolding calcular_fields distanciaTotal_depth_35 centro_velocities by simp
qed

text \<open>
  The instance of the amended C5 on the reference engine, epicenter and user at the
  same point, depth 35 km.
\<close>

theorem calcularTiempoLlegada_p_before_s_witness:
  "engine_ok ref_engine \<and>
   distanciaKm (calcularTiempoLlegada ref_engine 0 0 0 0 35 ''13'') \<noteq> NaN \<and>
   js_le (tiempoOndaP (calcularTiempoLlegada ref_engine 0 0 0 0 35 ''13''))
         (tiempoOndaS (calcularTiempoLlegada ref_engine 0 0 0 0 35 ''13''))"
  using calcularTiempoLlegada_p_before_s [of ref_engine 0 0 0 0 35 "''13''"] ref_engine_ok
  by (simp add: calcular_fields haversine_same_point)

text \<open>
  The instance of the amended C10 on the reference engine, epicenter and user at the
  same point, depth 35 km.
\<close>

theorem calcularTiempoLlegada_never_negative_witness:
  "engine_ok ref_engine \<and>
   is_finite (tiempoOndaS (calcularTiempoLlegada ref_engine 0 0 0 0 35 ''13'')) \<and>
   js_le (Num 0) (tiempoOndaP (calcularTiempoLlegada ref_engine 0 0 0 0 35 ''13'')) \<and>
   js_le (Num 0) (diferenciaSegundos (calcularTiempoLlegada ref_engine 0 0 0 0 35 ''13'')) \<and>
   js_le (Num 0) (tiempoAlerta (calcularTiempoLlegada ref_engine 0 0 0 0 35 ''13'')) \<and>
   \<not> js_lt (distanciaKm (calcularTiempoLlegada ref_engine 0 0 0 0 35 ''13'')) (Num 0)"
  using calcularTiempoLlegada_never_negative [of ref_engine 0 0 0 0 35 "''13''"] ref_engine_ok s_wave_depth_35
  by blast

section \<open>Properties of the recommendations\<close>

lemma base_lengths:
  "length (recomendacionesBase ! 0) = 2" "length (recomendacionesBase ! 1) = 3"
  "length (recomendacionesBase ! 2) = 5" "length (recomendacionesBase ! 3) = 8"
  "length (recomendacionesBase ! Suc 0) = 3"
  by (simp_all add: recomendacionesBase_def)

lemma especificas_length:
  "length (recomendacionesEspecificas t) = (if t = Adobe then 3 else 2)"
  by (cases t) (simp_all add: recomendacionesEspecificas_def)

lemma base_prefix: "recomendacionesBase ! 3 = recomendacionesBase ! 2 @ drop 5 (recomendacionesBase ! 3)"
  by (simp add: recomendacionesBase_def)

lemma band1: "i \<le> 3 \<Longrightarrow> getRecomendacionesIntensidad i t = recomendacionesBase ! 0"
  by (simp add: getRecomendacionesIntensidad_def)

lemma band2_low: "3 < i \<Longrightarrow> i < 5 \<Longrightarrow> getRecomendacionesIntensidad i t = recomendacionesBase ! 1"
  by (simp add: getRecomendacionesIntensidad_def)

lemma band2_five: "getRecomendacionesIntensidad 5 t = recomendacionesBase ! 1 @ recomendacionesEspecificas t"
  by (simp add: getRecomendacionesIntensidad_def)

lemma band3: "5 < i \<Longrightarrow> i \<le> 7 \<Longrightarrow>
   getRecomendacionesIntensidad i t = recomendacionesBase ! 2 @ recomendacionesEspecificas t"
  by (simp add: getRecomendacionesIntensidad_def)

lemma band4: "7 < i \<Longrightarrow>
   getRecomendacionesIntensidad i t = recomendacionesBase ! 3 @ recomendacionesEspecificas t"
  by (simp add: getRecomendacionesIntensidad_def)

lemma band2_length: "3 < i \<Longrightarrow> i \<le> 5 \<Longrightarrow>
   3 \<le> length (getRecomendacionesIntensidad i t) \<and>
   length (getRecomendacionesIntensidad i t) \<le> 3 + length (recomendacionesEspecificas t)"
  by (cases "i < 5") (simp_all add: band2_low band2_five base_lengths)

lemma no_measures_in: "no_measures \<in> set (recomendacionesBase ! 0)"
  by (simp add: recomendacionesBase_def no_measures_def)

lemma no_measures_out:
  "no_measures \<notin> set (recomendacionesBase ! 1)" "no_measures \<notin> set (recomendacionesEspecificas t)"
   apply (simp add: recomendacionesBase_def no_measures_def)
  apply (cases t; simp add: recomendacionesEspecificas_def no_measures_def)
  done

lemma away_in: "away_from_windows \<in> set (recomendacionesBase ! 1)"
  by (simp add: recomendacionesBase_def away_from_windows_def)

lemma away_out:
  "away_from_windows \<notin> set (recomendacionesBase ! 2)" "away_from_windows \<notin> set (recomendacionesEspecificas t)"
   apply (simp add: recomendacionesBase_def away_from_windows_def)
  apply (cases t; simp add: recomendacionesEspecificas_def away_from_windows_def)
  done

text \<open>
  C7, as written, says that every instruction of a lower band is also given in each
  higher band. The source keeps one list of its own for each band: at intensity 3 the
  first instruction is that no special measures are required, and at intensity 4 it is
  not given any more.
\<close>

theorem getRecomendacionesIntensidad_superset_counterexample:
  "\<not> set (getRecomendacionesIntensidad 3 Hormigon)
       \<subseteq> set (getRecomendacionesIntensidad 4 Hormigon)"
  by (simp add: getRecomendacionesIntensidad_def recomendacionesBase_def)

text \<open>
  C7, amended: for a fixed construction type the list grows strictly in length from band
  [1,3] to band [4,5], from there to band [6,7] and from there to band [8,12]; every
  instruction of band [6,7] is also an instruction of band [8,12]; the instructions of
  band [1,3] are not all given in band [4,5], nor those of band [4,5] in band [6,7].
\<close>

theorem getRecomendacionesIntensidad_bands:
  assumes "1 \<le> i1" "i1 \<le> 3" "4 \<le> i2" "i2 \<le> 5" "6 \<le> i3" "i3 \<le> 7" "8 \<le> i4" "i4 \<le> 12"
  shows "length (getRecomendacionesIntensidad i1 t) < length (getRecomendacionesIntensidad i2 t) \<and>
         length (getRecomendacionesIntensidad i2 t) < length (getRecomendacionesIntensidad i3 t) \<and>
         length (getRecomendacionesIntensidad i3 t) < length (getRecomendacionesIntensidad i4 t) \<and>
         set (getRecomendacionesIntensidad i3 t) \<subseteq> set (getRecomendacionesIntensidad i4 t) \<and>
         \<not> set (getRecomendacionesIntensidad i1 t) \<subseteq> set (getRecomendacionesIntensidad i2 t) \<and>
         \<not> set (getRecomendacionesIntensidad i2 t) \<subseteq> set (getRecomendacionesIntensidad i3 t)"
proof -
  have g1: "getRecomendacionesIntensidad i1 t = recomendacionesBase ! 0"
    using assms by (simp add: band1)
  have g3: "getRecomendacionesIntensidad i3 t = recomendacionesBase ! 2 @ recomendacionesEspecificas t"
    using assms by (simp add: band3)
  have g4: "getRecomendacionesIntensidad i4 t = recomendacionesBase ! 3 @ recomendacionesEspecificas t"
    using assms by (simp add: band4)
  have l2: "3 \<le> length (getRecomendacionesIntensidad i2 t)"
           "length (getRecomendacionesIntensidad i2 t) \<le> 3 + length (recomendacionesEspecificas t)"
    using band2_length [of i2 t] assms by simp_all
  have g2: "set (getRecomendacionesIntensidad i2 t)
              \<subseteq> set (recomendacionesBase ! 1) \<union> set (recomendacionesEspecificas t)"
    using assms by (cases "i2 < 5") (simp_all add: band2_low band2_five)
  have g2': "set (recomendacionesBase ! 1) \<subseteq> set (getRecomendacionesIntensidad i2 t)"
    using assms by (cases "i2 < 5") (simp_all add: band2_low band2_five)
  have c1: "length (getRecomendacionesIntensidad i1 t) < length (getRecomendacionesIntensidad i2 t)"
    using l2 by (simp add: g1 base_lengths)
  have c2: "length (getRecomendacionesIntensidad i2 t) < length (getRecomendacionesIntensidad i3 t)"
    using l2 by (simp add: g3 base_lengths)
  have c3: "length (getRecomendacionesIntensidad i3 t) < length (getRecomendacionesIntensidad i4 t)"
    by (simp add: g3 g4 base_lengths)
  have "set (recomendacionesBase ! 2) \<subseteq> set (recomendacionesBase ! 3)"
    by (subst base_prefix) simp
  then have c4: "set (getRecomendacionesIntensidad i3 t) \<subseteq> set (getRecomendacionesIntensidad i4 t)"
    unfolding g3 g4 by auto
  have c5: "\<not> set (getRecomendacionesIntensidad i1 t) \<subseteq> set (getRecomendacionesIntensidad i2 t)"
    using no_measures_in no_measures_out g2 unfolding g1 by blast
  have c6: "\<not> set (getRecomendacionesIntensidad i2 t) \<subseteq> set (getRecomendacionesIntensidad i3 t)"
    using away_in away_out g2' unfolding g3 by auto
  show ?thesis using c1 c2 c3 c4 c5 c6 by blast
qed

text \<open>The instance of the amended C7 at intensities 2, 5, 6 and 9 for adobe.\<close>

theorem getRecomendacionesIntensidad_bands_witness:
  "(1::real) \<le> 2 \<and> (2::real) \<le> 3 \<and> (4::real) \<le> 5 \<and> (5::real) \<le> 5 \<and>
   (6::real) \<le> 6 \<and> (6::real) \<le> 7 \<and> (8::real) \<le> 9 \<and> (9::real) \<le> 12 \<and>
   length (getRecomendacionesIntensidad 2 Adobe) < length (getRecomendacionesIntensidad 5 Adobe) \<and>
   length (getRecomendacionesIntensidad 5 Adobe) < length (getRecomendacionesIntensidad 6 Adobe) \<and>
   length (getRecomendacionesIntensidad 6 Adobe) < length (getRecomendacionesIntensidad 9 Adobe) \<and>
   set (getRecomendacionesIntensidad 6 Adobe) \<subseteq> set (getRecomendacionesIntensidad 9 Adobe)"
  using getRecomendacionesIntensidad_bands [of 2 5 6 9 Adobe] by simp

section \<open>Properties of the tsunami estimator\<close>

text \<open>
  C4: for every earthquake event the risk computed by the component is the risk of the
  specification: the base risk from the magnitude and depth thresholds, each inclusive on
  its lower bound, raised by one level, with the extreme level staying where it is, when
  the epicenter's longitude is less than -70.0 and the base risk is not none.
\<close>

theorem risk_refines_spec: "risk e = spec_risk (magnitude e) (depth e) (longitude e)"
  by (simp add: risk_def risk_base_def spec_risk_def spec_base_risk_def isSubductionZone_def
      Let_def)

text \<open>The instances of C4 at the two events defined above.\<close>

theorem risk_refines_spec_witness:
  "risk scenario3 = Risk_extreme \<and> risk scenario4 = Risk_none \<and>
   spec_risk 9 20 (-73) = Risk_extreme \<and> spec_risk 5 80 (-69) = Risk_none"
  using risk_refines_spec [of scenario3] risk_refines_spec [of scenario4]
  by (simp add: scenario3_def scenario4_def spec_risk_def spec_base_risk_def)

lemma js_lt_NaN_right: "js_lt u NaN = False"
  by (cases u) simp_all

lemma nearest_loop_NaN: "nearest_loop distOf xs (p0, NaN) = (p0, NaN)"
  by (induction xs) (simp_all add: Let_def js_lt_NaN_right)

lemma nearest_loop_snoc:
  "nearest_loop distOf (xs @ [x]) acc =
     (if js_lt (distOf x) (snd (nearest_loop distOf xs acc)) then (x, distOf x)
      else nearest_loop distOf xs acc)"
proof (induction xs arbitrary: acc)
  case Nil
  then show ?case by (cases acc) (simp add: Let_def)
next
  case (Cons y ys)
  then show ?case by (cases acc) (simp add: Let_def)
qed

lemma nearest_loop_first_min:
  assumes "\<forall>x\<in>set (p0 # xs). distOf x = Num (f x)"
  shows "\<exists>p. nearest_loop distOf xs (p0, Num (f p0)) = (p, Num (f p)) \<and>
             is_first_min f (p0 # xs) p"
  using assms
proof (induction xs rule: rev_induct)
  case Nil
  have "[p0] = [] @ p0 # [] \<and> (\<forall>u\<in>set []. f p0 < f u) \<and> (\<forall>v\<in>set []. f p0 \<le> f v)"
    by simp
  then have "is_first_min f [p0] p0"
    unfolding is_first_min_def by blast
  then show ?case by simp
next
  case (snoc x xs)
  have dx: "distOf x = Num (f x)" using snoc.prems by simp
  have "\<forall>x\<in>set (p0 # xs). distOf x = Num (f x)" using snoc.prems by simp
  then obtain p where p: "nearest_loop distOf xs (p0, Num (f p0)) = (p, Num (f p))"
      "is_first_min f (p0 # xs) p"
    using snoc.IH by blast
  from p(2) obtain us vs where
    uv: "p0 # xs = us @ p # vs" "\<forall>u\<in>set us. f p < f u" "\<forall>v\<in>set vs. f p \<le> f v"
    unfolding is_first_min_def by blast
  have all: "\<forall>q\<in>set (p0 # xs). f p \<le> f q"
    unfolding uv(1) using uv(2,3) by auto
  show ?case
  proof (cases "f x < f p")
    case True
    have "\<forall>u\<in>set (p0 # xs). f x < f u" using all True by fastforce
    then have "p0 # xs @ [x] = (p0 # xs) @ x # [] \<and> (\<forall>u\<in>set (p0 # xs). f x < f u) \<and>
               (\<forall>v\<in>set []. f x \<le> f v)"
      by simp
    then have "is_first_min f (p0 # xs @ [x]) x"
      unfolding is_first_min_def by blast
    then show ?thesis using True p(1) dx by (simp add: nearest_loop_snoc)
  next
    case False
    have "p0 # xs @ [x] = us @ p # (vs @ [x])" using uv(1) by (metis append_Cons append_assoc)
    moreover have "\<forall>v\<in>set (vs @ [x]). f p \<le> f v" using uv(3) False by auto
    ultimately have "is_first_min f (p0 # xs @ [x]) p"
      unfolding is_first_min_def using uv(2) by blast
    then show ?thesis using False p(1) dx by (simp add: nearest_loop_snoc)
  qed
qed

lemma find_first:
  "\<forall>u\<in>set us. \<not> P u \<Longrightarrow> P p \<Longrightarrow> find P (us @ p # vs) = Some p"
  by (induction us) simp_all

lemma is_first_min_spec:
  assumes "is_first_min f xs p"
  shows "Min (f ` set xs) = f p \<and> first_minimal f xs = Some p"
proof -
  from assms obtain us vs where
    uv: "xs = us @ p # vs" "\<forall>u\<in>set us. f p < f u" "\<forall>v\<in>set vs. f p \<le> f v"
    unfolding is_first_min_def by blast
  have "\<forall>q\<in>set xs. f p \<le> f q" unfolding uv(1) using uv(2,3) by auto
  moreover have "p \<in> set xs" unfolding uv(1) by simp
  ultimately have m: "Min (f ` set xs) = f p"
    by (intro Min_eqI) auto
  have "find (\<lambda>q. f q = f p) (us @ p # vs) = Some p"
    using uv(2) by (intro find_first) auto
  then have "find (\<lambda>q. f q = f p) xs = Some p" unfolding uv(1) .
  then have "first_minimal f xs = Some p" unfolding first_minimal_def m .
  then show ?thesis using m by simp
qed

lemma nearest_loop_spec:
  assumes "xs \<noteq> []" and "\<forall>x\<in>set xs. distOf x = Num (f x)"
  shows "\<exists>p. nearest_loop distOf xs (xs ! 0, distOf (xs ! 0)) = (p, Num (Min (f ` set xs))) \<and>
             first_minimal f xs = Some p"
proof -
  from assms(1) obtain x rest where xs: "xs = x # rest" by (cases xs) auto
  have dx: "distOf x = Num (f x)" using assms(2) xs by simp
  have skip: "nearest_loop distOf (x # rest) (x, Num (f x)) = nearest_loop distOf rest (x, Num (f x))"
    using dx by (simp add: Let_def)
  have "\<forall>y\<in>set (x # rest). distOf y = Num (f y)" using assms(2) xs by simp
  then obtain p where p: "nearest_loop distOf rest (x, Num (f x)) = (p, Num (f p))"
      "is_first_min f (x # rest) p"
    using nearest_loop_first_min [of x rest distOf f] by blast
  have "Min (f ` set xs) = f p \<and> first_minimal f xs = Some p"
    using is_first_min_spec [OF p(2)] unfolding xs .
  then show ?thesis using p(1) skip dx unfolding xs by simp
qed

lemma COASTAL_length: "length COASTAL_COORDINATES = 16"
  by (simp add: COASTAL_COORDINATES_def)

lemma nearestCoastal_when_numbers:
  assumes "\<forall>q\<in>set COASTAL_COORDINATES. distanceTo L la lo q = Num (km q)"
  shows "\<exists>p. nearestCoastal L la lo = (p, Num (Min (km ` set COASTAL_COORDINATES))) \<and>
             first_minimal km COASTAL_COORDINATES = Some p"
proof -
  have "COASTAL_COORDINATES \<noteq> []" using COASTAL_length by auto
  from nearest_loop_spec [OF this assms]
  show ?thesis by (simp add: nearestCoastal_def Let_def)
qed

lemma assessTsunami_when_numbers:
  assumes "risk e \<noteq> Risk_none"
    and "\<forall>q\<in>set COASTAL_COORDINATES. distanceTo L (latitude e) (longitude e) q = Num (km q)"
  shows "\<exists>p. first_minimal km COASTAL_COORDINATES = Some p \<and>
             nearestCoastalPoint (assessTsunami L (Some e) u s) = Some (name p) \<and>
             estimatedArrivalTime (assessTsunami L (Some e) u s) =
               Some (js_mul (js_div (Num (Min (km ` set COASTAL_COORDINATES))) (Num 800)) (Num 60))"
proof -
  obtain p where p: "nearestCoastal L (latitude e) (longitude e) =
        (p, Num (Min (km ` set COASTAL_COORDINATES)))"
     "first_minimal km COASTAL_COORDINATES = Some p"
    using nearestCoastal_when_numbers [OF assms(2)] by blast
  have "nearestCoastalPoint (assessTsunami L (Some e) u s) = Some (name p) \<and>
        estimatedArrivalTime (assessTsunami L (Some e) u s) =
          Some (js_mul (js_div (Num (Min (km ` set COASTAL_COORDINATES))) (Num 800)) (Num 60))"
    using assms(1) p(1) by (simp add: assessTsunami_def Let_def split: option.split prod.split)
  then show ?thesis using p(2) by blast
qed

lemma assessTsunami_no_risk:
  "risk e = Risk_none \<Longrightarrow>
     nearestCoastalPoint (assessTsunami L (Some e) u s) = nearestCoastalPoint s \<and>
     estimatedArrivalTime (assessTsunami L (Some e) u s) = estimatedArrivalTime s"
  by (simp add: assessTsunami_def Let_def)

lemma nearestCoastal_first_NaN:
  "distanceTo L la lo (COASTAL_COORDINATES ! 0) = NaN \<Longrightarrow>
     nearestCoastal L la lo = (COASTAL_COORDINATES ! 0, NaN)"
  by (simp add: nearestCoastal_def Let_def nearest_loop_NaN)

text \<open>
  C8: what the loop does once \<open>minDistance\<close> is not a number, as it is when the
  haversine distance to the first entry of the table is not a number: no comparison
  \<open>distance < minDistance\<close> holds, so the loop returns the entry it started from, the
  first of the table (Arica), whatever the other distances are, and the arrival
  estimate computed from \<open>minDistance\<close> is not a number either.
\<close>

theorem nearest_loop_keeps_first_on_NaN:
  "nearest_loop distOf table (nearestPoint, NaN) = (nearestPoint, NaN) \<and>
   js_mul (js_div NaN (Num 800)) (Num 60) = NaN \<and>
   name (COASTAL_COORDINATES ! 0) = ''Arica''"
  by (simp add: nearest_loop_NaN COASTAL_COORDINATES_def)

end
